theory Spec2Isabelle
  imports Complex_Main "HOL-Library.AList"
begin

section \<open>Values, frames and errors\<close>

text \<open>
  The pipeline works on polars frames. A cell read out of a frame (\<^verbatim>\<open>sample[0, 0]\<close>) is a
  Python value: \<^verbatim>\<open>None\<close> for a null, a \<^verbatim>\<open>bool\<close>, an \<^verbatim>\<open>int\<close>, a \<^verbatim>\<open>float\<close>, a \<^verbatim>\<open>str\<close>,
  a \<^verbatim>\<open>datetime.date\<close> (held by polars as days since 1970-01-01) or a
  \<^verbatim>\<open>datetime.datetime\<close> (held as microseconds since the epoch). A float is a finite IEEE
  double, given by its exact value; infinite and NaN cells are outside the model.
\<close>

datatype pyval =
    PyNone
  | PyBool bool
  | PyInt int
  | PyFloat rat
  | PyStr string
  | PyDate int
  | PyDatetime int

text \<open>The data types of the columns of a frame.\<close>

datatype dtype =
    pl_Null | pl_Boolean | pl_UInt32 | pl_Int64 | pl_Float64 | pl_String | pl_Date | pl_Datetime

text \<open>
  A frame has its schema (the column names with their data types, in order) and its rows;
  a row gives a value to column names. A name a row does not mention reads as null.
\<close>

type_synonym row = "(string \<times> pyval) list"

record frame =
  schema :: "(string \<times> dtype) list"
  rows :: "row list"

definition columns :: "frame \<Rightarrow> string list" where
  "columns df = map fst (schema df)"

definition dtype_of :: "frame \<Rightarrow> string \<Rightarrow> dtype" where
  "dtype_of df c = (case map_of (schema df) c of Some t \<Rightarrow> t | None \<Rightarrow> pl_Null)"

definition cell :: "row \<Rightarrow> string \<Rightarrow> pyval" where
  "cell r c = (case map_of r c of Some v \<Rightarrow> v | None \<Rightarrow> PyNone)"

text \<open>
  Every exception of the modelled code is a value. The three \<^verbatim>\<open>ValueError\<close>s the code raises
  itself are told apart by their message: missing primary keys (the absent keys and the dataset
  label), duplicate primary keys (the dataset label) and an empty column (its name). The others
  are raised by Python (\<^verbatim>\<open>ZeroDivisionError\<close>, \<^verbatim>\<open>TypeError\<close>) or by polars.
\<close>

datatype error =
    ValueError_keys_not_found "string list" string
  | ValueError_duplicate_keys string
  | ValueError_column_empty string
  | ZeroDivisionError
  | TypeError
  | ColumnNotFoundError string
  | DuplicateError
  | SchemaError
  | ComputeError
  | InvalidOperationError

section \<open>Floating point\<close>

text \<open>
  Python floats and polars' \<^verbatim>\<open>Float64\<close> are IEEE doubles: every operation gives the exact
  result rounded to the nearest double, ties to the even significand, and a result beyond the
  largest double is an infinity. Finite doubles are given by their exact rational value.
  The sign of zero is not modelled.
\<close>

datatype f64 = Finite rat | PosInf | NegInf | NaN

definition pow2 :: "int \<Rightarrow> rat" where
  "pow2 e = (if 0 \<le> e then 2 ^ nat e else 1 / 2 ^ nat (- e))"

text \<open>The position of the leading bit of a positive integer, and of a positive rational.\<close>

function ilog2_int :: "int \<Rightarrow> int" where
  "ilog2_int n = (if n \<le> 1 then 0 else 1 + ilog2_int (n div 2))"
  by pat_completeness auto
termination
  by (relation "measure nat") auto

declare ilog2_int.simps [simp del]

definition ilog2 :: "rat \<Rightarrow> int" where
  "ilog2 a =
     (let (p, q) = quotient_of a;
          e = ilog2_int p - ilog2_int q
      in if pow2 e \<le> a then e else e - 1)"

definition round_half_even :: "rat \<Rightarrow> int" where
  "round_half_even y =
     (let f = \<lfloor>y\<rfloor>; d = y - of_int f
      in if d < 1 / 2 then f
         else if 1 / 2 < d then f + 1
         else if even f then f else f + 1)"

text \<open>
  Rounding to a double: 53 significant bits, the spacing never below \<open>2^-1074\<close>
  (subnormal numbers), overflow from \<open>2^1024\<close> on.
\<close>

definition f64_round :: "rat \<Rightarrow> f64" where
  "f64_round x =
     (if x = 0 then Finite 0
      else let a = \<bar>x\<bar>;
               e = max (ilog2 a) (- 1022);
               q = pow2 (e - 52);
               r = of_int (round_half_even (a / q)) * q
           in if pow2 1024 \<le> r then (if 0 < x then PosInf else NegInf)
              else Finite (if 0 < x then r else - r))"

fun f64_neg :: "f64 \<Rightarrow> f64" where
  "f64_neg (Finite x) = Finite (- x)"
| "f64_neg PosInf = NegInf"
| "f64_neg NegInf = PosInf"
| "f64_neg NaN = NaN"

fun f64_add :: "f64 \<Rightarrow> f64 \<Rightarrow> f64" where
  "f64_add (Finite x) (Finite y) = f64_round (x + y)"
| "f64_add NaN _ = NaN"
| "f64_add _ NaN = NaN"
| "f64_add PosInf NegInf = NaN"
| "f64_add NegInf PosInf = NaN"
| "f64_add PosInf _ = PosInf"
| "f64_add _ PosInf = PosInf"
| "f64_add NegInf _ = NegInf"
| "f64_add _ NegInf = NegInf"

definition f64_sub :: "f64 \<Rightarrow> f64 \<Rightarrow> f64" where
  "f64_sub a b = f64_add a (f64_neg b)"

fun f64_mul :: "f64 \<Rightarrow> f64 \<Rightarrow> f64" where
  "f64_mul (Finite x) (Finite y) = f64_round (x * y)"
| "f64_mul NaN _ = NaN"
| "f64_mul _ NaN = NaN"
| "f64_mul (Finite x) PosInf = (if x = 0 then NaN else if 0 < x then PosInf else NegInf)"
| "f64_mul (Finite x) NegInf = (if x = 0 then NaN else if 0 < x then NegInf else PosInf)"
| "f64_mul PosInf (Finite y) = (if y = 0 then NaN else if 0 < y then PosInf else NegInf)"
| "f64_mul NegInf (Finite y) = (if y = 0 then NaN else if 0 < y then NegInf else PosInf)"
| "f64_mul PosInf PosInf = PosInf"
| "f64_mul NegInf NegInf = PosInf"
| "f64_mul PosInf NegInf = NegInf"
| "f64_mul NegInf PosInf = NegInf"

text \<open>The comparison \<open>a < b\<close> of two floats: false when either is NaN.\<close>

fun f64_lt :: "f64 \<Rightarrow> f64 \<Rightarrow> bool" where
  "f64_lt (Finite x) (Finite y) = (x < y)"
| "f64_lt NaN _ = False"
| "f64_lt _ NaN = False"
| "f64_lt _ NegInf = False"
| "f64_lt PosInf _ = False"
| "f64_lt NegInf _ = True"
| "f64_lt _ PosInf = True"

text \<open>
  The value of an operation whose result cannot overflow (a quotient of two row counts, a
  percentage, a quantile level, an integer of an \<^verbatim>\<open>Int64\<close> column read as a float): the
  nearest double.
\<close>

definition as_double :: "rat \<Rightarrow> rat" where
  "as_double x = (case f64_round x of Finite y \<Rightarrow> y | _ \<Rightarrow> x)"

section \<open>The polars operations the code calls\<close>

text \<open>
  \<^verbatim>\<open>df.select(names)\<close>: the frame restricted to the named columns. polars refuses a name the
  frame does not have and a name given twice.
\<close>

definition select :: "string list \<Rightarrow> frame \<Rightarrow> error + frame" where
  "select names df =
     (case filter (\<lambda>n. n \<notin> set (columns df)) names of
        n # _ \<Rightarrow> Inl (ColumnNotFoundError n)
      | [] \<Rightarrow>
          if \<not> distinct names then Inl DuplicateError
          else Inr \<lparr>schema = map (\<lambda>n. (n, dtype_of df n)) names,
                    rows = map (\<lambda>r. map (\<lambda>n. (n, cell r n)) names) (rows df)\<rparr>)"

text \<open>
  \<^verbatim>\<open>df.select([e1.alias(n1), ...])\<close> on expressions evaluated row by row: the output names
  must differ.
\<close>

definition select_exprs :: "(string \<times> dtype \<times> (row \<Rightarrow> pyval)) list \<Rightarrow> frame \<Rightarrow> error + frame" where
  "select_exprs exprs df =
     (if \<not> distinct (map fst exprs) then Inl DuplicateError
      else Inr \<lparr>schema = map (\<lambda>(n, t, f). (n, t)) exprs,
                rows = map (\<lambda>r. map (\<lambda>(n, t, f). (n, f r)) exprs) (rows df)\<rparr>)"

text \<open>
  \<^verbatim>\<open>df.with_columns(e.alias(name))\<close>: a column of that name is replaced where it stands, and
  added at the end when the frame has none. \<^verbatim>\<open>df.drop(name)\<close> removes it,
  \<^verbatim>\<open>df.filter(p)\<close> keeps the rows on which \<open>p\<close> is true.
\<close>

definition with_column :: "string \<Rightarrow> dtype \<Rightarrow> (row \<Rightarrow> pyval) \<Rightarrow> frame \<Rightarrow> frame" where
  "with_column name t f df =
     \<lparr>schema = AList.update name t (schema df),
      rows = map (\<lambda>r. AList.update name (f r) r) (rows df)\<rparr>"

definition drop_column :: "string \<Rightarrow> frame \<Rightarrow> frame" where
  "drop_column name df =
     \<lparr>schema = AList.delete name (schema df), rows = map (AList.delete name) (rows df)\<rparr>"

definition filter_rows :: "(row \<Rightarrow> bool) \<Rightarrow> frame \<Rightarrow> frame" where
  "filter_rows p df = df\<lparr>rows := filter p (rows df)\<rparr>"

text \<open>The values of the key columns of a row, in the order of the key list.\<close>

definition key_tuple :: "string list \<Rightarrow> row \<Rightarrow> pyval list" where
  "key_tuple keys r = map (cell r) keys"

text \<open>
  \<^verbatim>\<open>df.group_by(keys).agg(pl.count().alias("count"))\<close>: one row per distinct key tuple (null
  is a key value like any other) with the number of rows that have it, in an unsigned 32-bit
  column named \<open>count\<close>. polars refuses the result when a key column has that name. An empty
  key list is refused (polars versions differ there). The groups are given in the order of
  their first row; polars fixes no order.
\<close>

definition group_by_count :: "string list \<Rightarrow> frame \<Rightarrow> error + frame" where
  "group_by_count keys df =
     (if keys = [] then Inl ComputeError
      else if ''count'' \<in> set keys then Inl DuplicateError
      else let ks = map (key_tuple keys) (rows df)
           in Inr \<lparr>schema = map (\<lambda>k. (k, dtype_of df k)) keys @ [(''count'', pl_UInt32)],
                    rows = map (\<lambda>k. zip keys k @ [(''count'', PyInt (int (count_list ks k)))])
                             (remdups ks)\<rparr>)"

text \<open>\<^verbatim>\<open>df.unique()\<close>: the distinct rows.\<close>

definition unique :: "frame \<Rightarrow> frame" where
  "unique df = df\<lparr>rows := remdups (rows df)\<rparr>"

text \<open>
  Joins. polars refuses a join whose key columns do not have the same data type on both
  sides. The code leaves the null handling at its default, under which a null never matches
  anything: a key tuple that holds a null has no match, also when the other side holds the
  same tuple.
\<close>

definition key_dtypes_agree :: "string list \<Rightarrow> frame \<Rightarrow> frame \<Rightarrow> bool" where
  "key_dtypes_agree keys left right = list_all (\<lambda>k. dtype_of left k = dtype_of right k) keys"

definition key_matches :: "pyval list \<Rightarrow> pyval list list \<Rightarrow> bool" where
  "key_matches k ks = (PyNone \<notin> set k \<and> k \<in> set ks)"

text \<open>
  \<^verbatim>\<open>left.join(right, on=keys, how='anti')\<close>: the rows of \<open>left\<close> that have no match in
  \<open>right\<close>.
\<close>

definition anti_join :: "string list \<Rightarrow> frame \<Rightarrow> frame \<Rightarrow> error + frame" where
  "anti_join keys left right =
     (if \<not> key_dtypes_agree keys left right then Inl SchemaError
      else Inr (left\<lparr>rows := filter (\<lambda>r. \<not> key_matches (key_tuple keys r)
                                             (map (key_tuple keys) (rows right)))
                                 (rows left)\<rparr>))"

text \<open>
  \<^verbatim>\<open>left.join(right, on=keys, how='outer', suffix=s)\<close>: every column of \<open>left\<close>, then every
  column of \<open>right\<close> (its key columns too), the suffix added to a name of \<open>right\<close> that
  \<open>left\<close> has as well; polars refuses the join when two names of the result are the same.
  A row of \<open>left\<close> is paired with each row of \<open>right\<close> it matches, or with nulls; the rows of
  \<open>right\<close> without a match follow, with nulls on the left. polars fixes no row order.
\<close>

definition join_name :: "string \<Rightarrow> frame \<Rightarrow> string \<Rightarrow> string" where
  "join_name suffix left n = (if n \<in> set (columns left) then n @ suffix else n)"

definition join_columns :: "string \<Rightarrow> frame \<Rightarrow> frame \<Rightarrow> string list" where
  "join_columns suffix left right = columns left @ map (join_name suffix left) (columns right)"

definition outer_join :: "string list \<Rightarrow> string \<Rightarrow> frame \<Rightarrow> frame \<Rightarrow> error + frame" where
  "outer_join keys suffix left right =
     (if \<not> key_dtypes_agree keys left right then Inl SchemaError
      else if \<not> distinct (join_columns suffix left right) then Inl DuplicateError
      else
        let left_part = (\<lambda>l. map (\<lambda>n. (n, cell l n)) (columns left));
            right_part = (\<lambda>r. map (\<lambda>n. (join_name suffix left n, cell r n)) (columns right));
            left_nulls = map (\<lambda>n. (n, PyNone)) (columns left);
            right_nulls = map (\<lambda>n. (join_name suffix left n, PyNone)) (columns right);
            matches = (\<lambda>l r. key_matches (key_tuple keys l) [key_tuple keys r])
        in Inr \<lparr>schema = schema left @ map (\<lambda>(n, t). (join_name suffix left n, t)) (schema right),
                 rows =
                   concat (map (\<lambda>l. case filter (matches l) (rows right) of
                                        [] \<Rightarrow> [left_part l @ right_nulls]
                                      | ms \<Rightarrow> map (\<lambda>r. left_part l @ right_part r) ms)
                             (rows left))
                   @ map (\<lambda>r. left_nulls @ right_part r)
                       (filter (\<lambda>r. \<not> list_ex (\<lambda>l. matches l r) (rows left)) (rows right))\<rparr>)"

section \<open>The comparison engine (data_comparison.py)\<close>

record DataComparison =
  primary_keys :: "string list"
  join_type :: string
  chunk_size :: int

text \<open>The integer of a cell of an integer column.\<close>

fun int_of :: "pyval \<Rightarrow> int" where
  "int_of (PyInt n) = n"
| "int_of _ = 0"

text \<open>
  \<^verbatim>\<open>validate_primary_keys\<close>: the keys the frame lacks are reported first; otherwise the rows
  are grouped by key tuple and a group of more than one row is a duplicate.
\<close>

definition validate_primary_keys :: "DataComparison \<Rightarrow> frame \<Rightarrow> string \<Rightarrow> error + bool" where
  "validate_primary_keys self df year_label =
     (let df_columns = columns df;
          missing_keys = filter (\<lambda>key. key \<notin> set df_columns) (primary_keys self)
      in if missing_keys \<noteq> [] then Inl (ValueError_keys_not_found missing_keys year_label)
         else case select (primary_keys self) df of
             Inl e \<Rightarrow> Inl e
           | Inr selected \<Rightarrow>
         (case group_by_count (primary_keys self) selected of
             Inl e \<Rightarrow> Inl e
           | Inr groups \<Rightarrow>
               let duplicate_check = filter_rows (\<lambda>r. int_of (cell r ''count'') > 1) groups
               in if length (rows duplicate_check) > 0
                  then Inl (ValueError_duplicate_keys year_label)
                  else Inr True))"

text \<open>
  Python's \<^verbatim>\<open>a / b\<close> on two ints: the quotient rounded to a float, or
  \<^verbatim>\<open>ZeroDivisionError\<close>.
\<close>

definition py_truediv :: "int \<Rightarrow> int \<Rightarrow> error + rat" where
  "py_truediv a b =
     (if b = 0 then Inl ZeroDivisionError else Inr (as_double (of_int a / of_int b)))"

record comparison_stats =
  total_records_current :: int
  total_records_previous :: int
  lapsed_records :: int
  new_records :: int
  retention_rate :: rat

record comparison_result =
  joined_data :: frame
  table_lapsed :: frame
  table_new :: frame
  stats :: comparison_stats

text \<open>
  \<^verbatim>\<open>compare_datasets\<close>. Both validations run first and an exception of either leaves the
  function; so does an exception of a join. The retention rate is computed before the result
  dictionary, whose first entry is the outer join of the two frames, is built.
\<close>

definition compare_datasets :: "DataComparison \<Rightarrow> frame \<Rightarrow> frame \<Rightarrow> error + comparison_result" where
  "compare_datasets self current_data previous_data =
     (case validate_primary_keys self current_data ''current'' of
        Inl e \<Rightarrow> Inl e
      | Inr _ \<Rightarrow>
     (case validate_primary_keys self previous_data ''previous'' of
        Inl e \<Rightarrow> Inl e
      | Inr _ \<Rightarrow>
     (case select (primary_keys self) current_data of
        Inl e \<Rightarrow> Inl e
      | Inr current_selected \<Rightarrow>
     (case select (primary_keys self) previous_data of
        Inl e \<Rightarrow> Inl e
      | Inr previous_selected \<Rightarrow>
         let current_keys = unique current_selected;
             previous_keys = unique previous_selected
         in
     (case anti_join (primary_keys self) current_data previous_keys of
        Inl e \<Rightarrow> Inl e
      | Inr new \<Rightarrow>
     (case anti_join (primary_keys self) previous_data current_keys of
        Inl e \<Rightarrow> Inl e
      | Inr lapsed \<Rightarrow>
         let n_current = int (length (rows current_data));
             n_previous = int (length (rows previous_data));
             n_lapsed = int (length (rows lapsed));
             n_new = int (length (rows new))
         in
     (case py_truediv (n_current - n_new) n_previous of
        Inl e \<Rightarrow> Inl e
      | Inr ratio \<Rightarrow>
     (case outer_join (primary_keys self) ''_prev'' current_data previous_data of
        Inl e \<Rightarrow> Inl e
      | Inr joined \<Rightarrow>
          Inr \<lparr>joined_data = joined,
               table_lapsed = lapsed,
               table_new = new,
               stats = \<lparr>total_records_current = n_current,
                        total_records_previous = n_previous,
                        lapsed_records = n_lapsed,
                        new_records = n_new,
                        retention_rate = as_double (ratio * 100)\<rparr>\<rparr>))))))))"

section \<open>The outlier engine (outlier_detector.py)\<close>

datatype ColumnType = NUMERIC | CATEGORICAL | DATE

text \<open>The two thresholds are floats of the configuration.\<close>

record OutlierDetector =
  percentile_threshold :: rat
  rare_category_threshold :: rat

subsection \<open>Python's \<^verbatim>\<open>isinstance\<close>\<close>

text \<open>
  The classes the code tests against, and the classes of the values a frame gives out.
  \<^verbatim>\<open>bool\<close> is a subclass of \<^verbatim>\<open>int\<close> and \<^verbatim>\<open>datetime.datetime\<close> one of
  \<^verbatim>\<open>datetime.date\<close>. \<^verbatim>\<open>pl.Date\<close> and \<^verbatim>\<open>pl.Datetime\<close> are polars' data type classes:
  they describe columns, and no value read out of a frame is an instance of either.
\<close>

datatype pyclass =
    C_NoneType | C_bool | C_int | C_float | C_str | C_date | C_datetime
  | C_pl_Date | C_pl_Datetime

fun class_of :: "pyval \<Rightarrow> pyclass" where
  "class_of PyNone = C_NoneType"
| "class_of (PyBool _) = C_bool"
| "class_of (PyInt _) = C_int"
| "class_of (PyFloat _) = C_float"
| "class_of (PyStr _) = C_str"
| "class_of (PyDate _) = C_date"
| "class_of (PyDatetime _) = C_datetime"

definition issubclass :: "pyclass \<Rightarrow> pyclass \<Rightarrow> bool" where
  "issubclass c d = (c = d \<or> (c = C_bool \<and> d = C_int) \<or> (c = C_datetime \<and> d = C_date))"

definition isinstance :: "pyval \<Rightarrow> pyclass list \<Rightarrow> bool" where
  "isinstance v classes = list_ex (issubclass (class_of v)) classes"

subsection \<open>Columns and quantiles\<close>

text \<open>\<^verbatim>\<open>df.select(pl.col(column))\<close>: the values of one column, in row order.\<close>

definition get_column :: "frame \<Rightarrow> string \<Rightarrow> error + pyval list" where
  "get_column df column =
     (if column \<in> set (columns df) then Inr (map (\<lambda>r. cell r column) (rows df))
      else Inl (ColumnNotFoundError column))"

text \<open>
  The float a numeric cell stands for; an integer is converted to the nearest double. A
  comparison of a cell with a float literal (\<^verbatim>\<open>pl.col(column) > pl.lit(b)\<close>) is made in
  floats; it is null on a null cell, and \<^verbatim>\<open>filter\<close> drops the row.
\<close>

fun num_of :: "pyval \<Rightarrow> rat option" where
  "num_of (PyInt n) = Some (as_double (of_int n))"
| "num_of (PyFloat x) = Some x"
| "num_of _ = None"

definition col_gt :: "pyval \<Rightarrow> f64 \<Rightarrow> bool" where
  "col_gt v b = (case num_of v of Some x \<Rightarrow> f64_lt b (Finite x) | None \<Rightarrow> False)"

definition col_lt :: "pyval \<Rightarrow> f64 \<Rightarrow> bool" where
  "col_lt v b = (case num_of v of Some x \<Rightarrow> f64_lt (Finite x) b | None \<Rightarrow> False)"

text \<open>
  \<^verbatim>\<open>pl.col(column).quantile(q)\<close> is polars' code, not this repository's: the detection
  functions take it as a parameter. Given a level and the cells of a column it gives a float,
  a null (\<open>None\<close>), or it raises.
\<close>

type_synonym quantile_fn = "rat \<Rightarrow> pyval list \<Rightarrow> error + rat option"

text \<open>
  polars' quantile with its default interpolation (\<^verbatim>\<open>'nearest'\<close>), used wherever a concrete
  quantile is needed: a level outside \<open>[0, 1]\<close> is refused, a column that is not numeric is
  refused, a column without a non-null value gives null, and otherwise the result is the
  non-null value at the rounded position \<open>(n - 1) * q\<close> of the sorted values.
\<close>

definition pl_quantile :: quantile_fn where
  "pl_quantile q col =
     (if q < 0 \<or> 1 < q then Inl ComputeError
      else if list_ex (\<lambda>v. v \<noteq> PyNone \<and> num_of v = None) col then Inl InvalidOperationError
      else let vals = sort (List.map_filter num_of col)
           in if vals = [] then Inr None
              else let float_idx = as_double ((of_nat (length vals) - 1) * q);
                       idx = nat \<lfloor>float_idx + 1 / 2\<rfloor>
                   in Inr (Some (vals ! min idx (length vals - 1))))"

text \<open>\<^verbatim>\<open>float(x)\<close> on a value read out of a frame: \<^verbatim>\<open>float(None)\<close> raises.\<close>

definition py_float :: "rat option \<Rightarrow> error + rat" where
  "py_float x = (case x of None \<Rightarrow> Inl TypeError | Some y \<Rightarrow> Inr y)"

subsection \<open>Column classification\<close>

definition determine_column_type :: "OutlierDetector \<Rightarrow> frame \<Rightarrow> string \<Rightarrow> error + ColumnType" where
  "determine_column_type self df column =
     (case get_column df column of
        Inl e \<Rightarrow> Inl e
      | Inr col \<Rightarrow>
          (case filter (\<lambda>v. v \<noteq> PyNone) col of
             [] \<Rightarrow> Inl (ValueError_column_empty column)
           | v # _ \<Rightarrow>
               if isinstance v [C_int, C_float] then Inr NUMERIC
               else if isinstance v [C_pl_Date, C_pl_Datetime] then Inr DATE
               else Inr CATEGORICAL))"

subsection \<open>Numeric columns\<close>

text \<open>
  \<^verbatim>\<open>_detect_numeric_outliers\<close>. The two quantile levels of the percentile threshold are
  computed in floats. The four quantiles are computed by one \<^verbatim>\<open>collect\<close>; the two percentile
  bounds are then never read. The bounds of the flagging rule are computed in floats. The
  result is a frame of three columns: the flagged values under the name of the column, the
  method and the direction; polars refuses it when the column has one of the two other names.
\<close>

definition detect_numeric_outliers ::
  "quantile_fn \<Rightarrow> OutlierDetector \<Rightarrow> frame \<Rightarrow> string \<Rightarrow> error + frame" where
  "detect_numeric_outliers quantile self df column =
     (case get_column df column of
        Inl e \<Rightarrow> Inl e
      | Inr col \<Rightarrow>
     (case quantile (as_double (1 - as_double (percentile_threshold self / 100))) col of
        Inl e \<Rightarrow> Inl e
      | Inr upper_percentile \<Rightarrow>
     (case quantile (as_double (percentile_threshold self / 100)) col of
        Inl e \<Rightarrow> Inl e
      | Inr lower_percentile \<Rightarrow>
     (case quantile (3 / 4) col of
        Inl e \<Rightarrow> Inl e
      | Inr q3_cell \<Rightarrow>
     (case quantile (1 / 4) col of
        Inl e \<Rightarrow> Inl e
      | Inr q1_cell \<Rightarrow>
     (case py_float q1_cell of
        Inl e \<Rightarrow> Inl e
      | Inr q1 \<Rightarrow>
     (case py_float q3_cell of
        Inl e \<Rightarrow> Inl e
      | Inr q3 \<Rightarrow>
         let iqr = f64_sub (Finite q3) (Finite q1);
             iqr_lower = f64_sub (Finite q1) (f64_mul (Finite (3 / 2)) iqr);
             iqr_upper = f64_add (Finite q3) (f64_mul (Finite (3 / 2)) iqr)
         in select_exprs
              [(column, dtype_of df column, \<lambda>r. cell r column),
               (''method'', pl_String, \<lambda>r. PyStr ''IQR''),
               (''direction'', pl_String,
                  \<lambda>r. PyStr (if col_gt (cell r column) iqr_upper then ''above'' else ''below''))]
              (filter_rows (\<lambda>r. col_gt (cell r column) iqr_upper
                                \<or> col_lt (cell r column) iqr_lower) df))))))))"

subsection \<open>Categorical columns\<close>

text \<open>
  \<^verbatim>\<open>_detect_categorical_outliers\<close>. \<^verbatim>\<open>total_count\<close> is the number of rows of the frame.
  \<^verbatim>\<open>group_by\<close> makes one group per distinct value, null included. The count is an unsigned
  32-bit column and the product with the literal 100 stays in that type, so it wraps; the
  division is a float division. The percentage is stored in a column named \<open>percentage\<close>,
  which replaces a column of that name. Any exception is caught and gives the empty frame
  \<^verbatim>\<open>pl.DataFrame()\<close>.
\<close>

definition percentage_of :: "nat \<Rightarrow> row \<Rightarrow> pyval" where
  "percentage_of total_count r =
     PyFloat (as_double (of_int ((int_of (cell r ''count'') * 100) mod 2 ^ 32) / of_nat total_count))"

definition below_threshold :: "rat \<Rightarrow> row \<Rightarrow> bool" where
  "below_threshold threshold r =
     (case num_of (cell r ''percentage'') of Some p \<Rightarrow> p < threshold | None \<Rightarrow> False)"

definition detect_categorical_outliers :: "OutlierDetector \<Rightarrow> frame \<Rightarrow> string \<Rightarrow> frame" where
  "detect_categorical_outliers self df column =
     (let total_count = length (rows df)
      in case select [column] df of
           Inl e \<Rightarrow> \<lparr>schema = [], rows = []\<rparr>
         | Inr selected \<Rightarrow>
        (case group_by_count [column] selected of
           Inl e \<Rightarrow> \<lparr>schema = [], rows = []\<rparr>
         | Inr counted \<Rightarrow>
             filter_rows (below_threshold (rare_category_threshold self))
               (with_column ''percentage'' pl_Float64 (percentage_of total_count) counted)))"

subsection \<open>Date columns\<close>

text \<open>
  \<^verbatim>\<open>pl.col(column).cast(pl.Int64)\<close>: a date gives its days since the epoch, a datetime its
  microseconds since the epoch; a float is truncated; text is read as a decimal integer with
  an optional sign and refused otherwise; a result outside 64 bits is refused.
\<close>

definition digit_of :: "char \<Rightarrow> int option" where
  "digit_of c =
     (let n = of_char c :: nat
      in if 48 \<le> n \<and> n \<le> 57 then Some (int n - 48) else None)"

fun parse_digits :: "int \<Rightarrow> string \<Rightarrow> int option" where
  "parse_digits acc [] = Some acc"
| "parse_digits acc (c # cs) =
     (case digit_of c of None \<Rightarrow> None | Some d \<Rightarrow> parse_digits (10 * acc + d) cs)"

definition parse_int :: "string \<Rightarrow> int option" where
  "parse_int s =
     (case s of
        [] \<Rightarrow> None
      | c # cs \<Rightarrow>
          if c = CHR ''-'' then (if cs = [] then None else map_option uminus (parse_digits 0 cs))
          else if c = CHR ''+'' then (if cs = [] then None else parse_digits 0 cs)
          else parse_digits 0 s)"

definition in_int64 :: "int \<Rightarrow> error + pyval" where
  "in_int64 n = (if - (2 ^ 63) \<le> n \<and> n < 2 ^ 63 then Inr (PyInt n) else Inl InvalidOperationError)"

fun cast_int64 :: "pyval \<Rightarrow> error + pyval" where
  "cast_int64 PyNone = Inr PyNone"
| "cast_int64 (PyBool b) = Inr (PyInt (if b then 1 else 0))"
| "cast_int64 (PyInt n) = in_int64 n"
| "cast_int64 (PyFloat x) = in_int64 (if 0 \<le> x then \<lfloor>x\<rfloor> else \<lceil>x\<rceil>)"
| "cast_int64 (PyStr s) =
     (case parse_int s of None \<Rightarrow> Inl InvalidOperationError | Some n \<Rightarrow> in_int64 n)"
| "cast_int64 (PyDate d) = Inr (PyInt d)"
| "cast_int64 (PyDatetime t) = Inr (PyInt t)"

fun cast_column :: "pyval list \<Rightarrow> error + pyval list" where
  "cast_column [] = Inr []"
| "cast_column (v # vs) =
     (case cast_int64 v of
        Inl e \<Rightarrow> Inl e
      | Inr w \<Rightarrow> (case cast_column vs of Inl e \<Rightarrow> Inl e | Inr ws \<Rightarrow> Inr (w # ws)))"

definition cast_cell :: "pyval \<Rightarrow> pyval" where
  "cast_cell v = (case cast_int64 v of Inl e \<Rightarrow> PyNone | Inr w \<Rightarrow> w)"

text \<open>
  \<^verbatim>\<open>pl.from_epoch(column)\<close> with its default unit, seconds: the integer is multiplied by
  \<open>1000000\<close> in 64 bits, where the product wraps, and read as the microseconds of a datetime.
  A null stays null.
\<close>

definition wrap_int64 :: "int \<Rightarrow> int" where
  "wrap_int64 n = (n + 2 ^ 63) mod 2 ^ 64 - 2 ^ 63"

fun from_epoch :: "pyval \<Rightarrow> pyval" where
  "from_epoch (PyInt n) = PyDatetime (wrap_int64 (n * 1000000))"
| "from_epoch _ = PyNone"

text \<open>
  \<^verbatim>\<open>_detect_date_outliers\<close>: the cast is stored in a column \<open>_temp_ts\<close>, the numeric method
  runs on it, and on a non-empty result the flagged integers are converted back, stored under
  the name of the column, and \<open>_temp_ts\<close> is dropped.
\<close>

definition detect_date_outliers ::
  "quantile_fn \<Rightarrow> OutlierDetector \<Rightarrow> frame \<Rightarrow> string \<Rightarrow> error + frame" where
  "detect_date_outliers quantile self df column =
     (case get_column df column of
        Inl e \<Rightarrow> Inl e
      | Inr col \<Rightarrow>
     (case cast_column col of
        Inl e \<Rightarrow> Inl e
      | Inr ts \<Rightarrow>
         let df_with_ts = with_column ''_temp_ts'' pl_Int64 (\<lambda>r. cast_cell (cell r column)) df
         in (case detect_numeric_outliers quantile self df_with_ts ''_temp_ts'' of
               Inl e \<Rightarrow> Inl e
             | Inr outliers \<Rightarrow>
                 if rows outliers \<noteq> []
                 then Inr (drop_column ''_temp_ts''
                            (with_column column pl_Datetime
                               (\<lambda>r. from_epoch (cell r ''_temp_ts'')) outliers))
                 else Inr outliers)))"

subsection \<open>Whole-table detection\<close>

text \<open>
  The body of the \<^verbatim>\<open>try\<close> block of \<^verbatim>\<open>detect_outliers\<close> for one column, up to the frame of
  outliers: \<open>Inr None\<close> is the \<^verbatim>\<open>continue\<close> of a column without rows, \<open>Inl\<close> an exception.
  The value tested is the first value of the column, null or not.
\<close>

definition detect_column ::
  "quantile_fn \<Rightarrow> OutlierDetector \<Rightarrow> frame \<Rightarrow> string \<Rightarrow> error + frame option" where
  "detect_column quantile self df column =
     (case get_column df column of
        Inl e \<Rightarrow> Inl e
      | Inr sample_data \<Rightarrow>
          (case sample_data of
             [] \<Rightarrow> Inr None
           | first_value # _ \<Rightarrow>
               if isinstance first_value [C_int, C_float]
               then (case detect_numeric_outliers quantile self df column of
                       Inl e \<Rightarrow> Inl e
                     | Inr outliers \<Rightarrow> Inr (Some outliers))
               else if isinstance first_value [C_pl_Date, C_pl_Datetime]
               then (case detect_date_outliers quantile self df column of
                       Inl e \<Rightarrow> Inl e
                     | Inr outliers \<Rightarrow> Inr (Some outliers))
               else Inr (Some (detect_categorical_outliers self df column))))"

text \<open>
  \<^verbatim>\<open>detect_outliers\<close>: the loop over the columns. An exception of a column is caught
  (a warning is printed) and the loop goes on; a column enters the result only with a
  non-empty frame of outliers.
\<close>

definition detect_outliers ::
  "quantile_fn \<Rightarrow> OutlierDetector \<Rightarrow> frame \<Rightarrow> (string \<rightharpoonup> frame)" where
  "detect_outliers quantile self df =
     fold (\<lambda>column results.
             case detect_column quantile self df column of
               Inl e \<Rightarrow> results
             | Inr None \<Rightarrow> results
             | Inr (Some outliers) \<Rightarrow>
                 if rows outliers \<noteq> [] then results(column \<mapsto> outliers) else results)
       (columns df) Map.empty"

section \<open>Vocabulary of the statements\<close>

text \<open>
  The key tuples of the rows of a frame, in row order.
\<close>

definition keys_of :: "string list \<Rightarrow> frame \<Rightarrow> pyval list list" where
  "keys_of keys df = map (key_tuple keys) (rows df)"

text \<open>
  The rows of \<open>left\<close> that the anti-join on the keys of \<open>right\<close> keeps.
\<close>

definition unmatched_rows :: "string list \<Rightarrow> frame \<Rightarrow> frame \<Rightarrow> row list" where
  "unmatched_rows keys left right =
     filter (\<lambda>r. PyNone \<in> set (key_tuple keys r) \<or> key_tuple keys r \<notin> set (keys_of keys right))
       (rows left)"

text \<open>
  The specification's "new" and "lapsed": the rows of \<open>left\<close> whose key tuple is absent from the
  key set of \<open>right\<close>.
\<close>

definition absent_rows :: "string list \<Rightarrow> frame \<Rightarrow> frame \<Rightarrow> row list" where
  "absent_rows keys left right =
     filter (\<lambda>r. key_tuple keys r \<notin> set (keys_of keys right)) (rows left)"

text \<open>
  The matched key tuples: the distinct key tuples of \<open>a\<close> without a null that \<open>b\<close> holds too.
\<close>

definition matched_keys :: "string list \<Rightarrow> frame \<Rightarrow> frame \<Rightarrow> pyval list list" where
  "matched_keys keys a b =
     filter (\<lambda>k. PyNone \<notin> set k \<and> k \<in> set (keys_of keys b)) (remdups (keys_of keys a))"

text \<open>
  Example data: a comparison on the single key column \<open>id\<close>, and frames of that one column.
\<close>

definition by_id :: DataComparison where
  "by_id = \<lparr>primary_keys = [''id''], join_type = ''outer'', chunk_size = 100000\<rparr>"

definition id_frame :: "pyval list \<Rightarrow> frame" where
  "id_frame ids = \<lparr>schema = [(''id'', pl_Int64)], rows = map (\<lambda>v. [(''id'', v)]) ids\<rparr>"

text \<open>
  Example data: the detector with its default thresholds, and frames of one column.
\<close>

definition default_detector :: OutlierDetector where
  "default_detector = \<lparr>percentile_threshold = 10, rare_category_threshold = 1\<rparr>"

definition column_frame :: "string \<Rightarrow> dtype \<Rightarrow> pyval list \<Rightarrow> frame" where
  "column_frame name t vals = \<lparr>schema = [(name, t)], rows = map (\<lambda>v. [(name, v)]) vals\<rparr>"

text \<open>
  The two bounds of the flagging rule, computed in floats from the quartiles as the code does;
  the rule on a cell; the row returned for a flagged value.
\<close>

definition iqr_upper :: "rat \<Rightarrow> rat \<Rightarrow> f64" where
  "iqr_upper q1 q3 = f64_add (Finite q3) (f64_mul (Finite (3 / 2)) (f64_sub (Finite q3) (Finite q1)))"

definition iqr_lower :: "rat \<Rightarrow> rat \<Rightarrow> f64" where
  "iqr_lower q1 q3 = f64_sub (Finite q1) (f64_mul (Finite (3 / 2)) (f64_sub (Finite q3) (Finite q1)))"

definition iqr_flag :: "rat \<Rightarrow> rat \<Rightarrow> pyval \<Rightarrow> bool" where
  "iqr_flag q1 q3 v =
     (case num_of v of
        Some x \<Rightarrow> f64_lt (iqr_upper q1 q3) (Finite x) \<or> f64_lt (Finite x) (iqr_lower q1 q3)
      | None \<Rightarrow> False)"

definition iqr_row :: "string \<Rightarrow> rat \<Rightarrow> rat \<Rightarrow> pyval \<Rightarrow> row" where
  "iqr_row column q1 q3 v =
     [(column, v), (''method'', PyStr ''IQR''),
      (''direction'', PyStr (if col_gt v (iqr_upper q1 q3) then ''above'' else ''below''))]"

text \<open>
  The percentage the code stores: 100 times the count over the number of rows of the frame,
  as a float.
\<close>

definition rows_percentage :: "frame \<Rightarrow> pyval list \<Rightarrow> pyval \<Rightarrow> rat" where
  "rows_percentage df col v =
     as_double (of_nat (100 * count_list col v) / of_nat (length (rows df)))"

text \<open>
  The specification's percentage of a category: 100 times its count over the number of non-null
  rows of the column.
\<close>

definition non_null_percentage :: "pyval list \<Rightarrow> pyval \<Rightarrow> rat" where
  "non_null_percentage col v =
     as_double (of_nat (100 * count_list col v) / of_nat (length (filter (\<lambda>w. w \<noteq> PyNone) col)))"

text \<open>
  The row returned for a rare category.
\<close>

definition category_row :: "string \<Rightarrow> frame \<Rightarrow> pyval list \<Rightarrow> pyval \<Rightarrow> row" where
  "category_row column df col v =
     [(column, v), (''count'', PyInt (int (count_list col v))),
      (''percentage'', PyFloat (rows_percentage df col v))]"

text \<open>
  What one column contributes to the result of the table scan.
\<close>

definition column_outcome ::
  "quantile_fn \<Rightarrow> OutlierDetector \<Rightarrow> frame \<Rightarrow> string \<Rightarrow> frame option" where
  "column_outcome quantile self df column =
     (case detect_column quantile self df column of
        Inl e \<Rightarrow> None
      | Inr None \<Rightarrow> None
      | Inr (Some outliers) \<Rightarrow> if rows outliers = [] then None else Some outliers)"

text \<open>
  Example data: a frame of a boolean, an integer and a text column.
\<close>

definition policy_frame :: frame where
  "policy_frame =
     \<lparr>schema = [(''active'', pl_Boolean), (''premium'', pl_Int64), (''region'', pl_String)],
      rows = [[(''active'', PyBool True), (''premium'', PyInt 5), (''region'', PyStr ''north'')],
              [(''active'', PyBool False), (''premium'', PyInt 6), (''region'', PyStr ''north'')],
              [(''active'', PyBool True), (''premium'', PyInt 7), (''region'', PyStr ''south'')],
              [(''active'', PyBool True), (''premium'', PyInt 1000), (''region'', PyStr ''south'')]]\<rparr>"

section \<open>Properties\<close>

subsection \<open>Floating point\<close>

lemma pow2_power_int: "pow2 e = 2 powi e"
  by (simp add: pow2_def power_int_def field_simps)

lemma pow2_pos: "0 < pow2 e"
  by (simp add: pow2_power_int)

lemma pow2_add: "pow2 (i + j) = pow2 i * pow2 j"
  by (simp add: pow2_power_int power_int_add)

lemma pow2_nonneg_int: "0 \<le> e \<Longrightarrow> pow2 e = of_int (2 ^ nat e)"
  by (simp add: pow2_def)

lemma pow2_mono: "i \<le> j \<Longrightarrow> pow2 i \<le> pow2 j"
  by (simp add: pow2_power_int power_int_increasing)

lemma pow2_less_imp: "pow2 i < pow2 j \<Longrightarrow> i < j"
  using pow2_mono [of j i] by (cases "i < j") auto

lemma ilog2_int_bounds:
  "1 \<le> n \<Longrightarrow> 0 \<le> ilog2_int n \<and> 2 ^ nat (ilog2_int n) \<le> n \<and> n < 2 ^ (nat (ilog2_int n) + 1)"
proof (induction n rule: ilog2_int.induct)
  case (1 n)
  show ?case
  proof (cases "n \<le> 1")
    case True
    with "1.prems" have "n = 1" by simp
    then show ?thesis by (simp add: ilog2_int.simps)
  next
    case False
    then have h: "1 \<le> n div 2" by simp
    from "1.IH" [OF False h] have
      ih: "0 \<le> ilog2_int (n div 2)" "2 ^ nat (ilog2_int (n div 2)) \<le> n div 2"
          "n div 2 < 2 ^ (nat (ilog2_int (n div 2)) + 1)"
      by simp_all
    have e: "ilog2_int n = 1 + ilog2_int (n div 2)"
      using False by (subst ilog2_int.simps) simp
    have n: "nat (ilog2_int n) = Suc (nat (ilog2_int (n div 2)))"
      using ih(1) e by simp
    define P where "P = (2::int) ^ nat (ilog2_int (n div 2))"
    from ih(2,3) have "P \<le> n div 2" "n div 2 < 2 * P" by (simp_all add: P_def)
    then have "2 * P \<le> n" "n < 2 * (2 * P)" by linarith+
    then show ?thesis
      unfolding n using ih(1) e by (simp add: P_def)
  qed
qed

lemma ilog2_le:
  assumes "0 < a"
  shows "pow2 (ilog2 a) \<le> a"
proof -
  obtain p q where pq: "quotient_of a = (p, q)" by (cases "quotient_of a")
  then have q: "0 < q" and a: "a = of_int p / of_int q"
    using quotient_of_denom_pos quotient_of_div by auto
  from assms a q have p: "1 \<le> p"
    by (simp add: zero_less_divide_iff) 
  let ?e = "ilog2_int p - ilog2_int q"
  show ?thesis
  proof (cases "pow2 ?e \<le> a")
    case True
    then show ?thesis by (simp add: ilog2_def pq)
  next
    case False
    then have i: "ilog2 a = ?e - 1" by (simp add: ilog2_def pq)
    from q have q1: "1 \<le> q" by simp
    note bp = ilog2_int_bounds [OF p] and bq = ilog2_int_bounds [OF q1]
    have lp: "pow2 (ilog2_int p) \<le> of_int p"
      using bp by (simp add: pow2_nonneg_int del: of_int_power)
    have "of_int q < (of_int (2 ^ (nat (ilog2_int q) + 1)) :: rat)"
      using bq by (simp only: of_int_less_iff)
    also have "\<dots> = pow2 (ilog2_int q + 1)"
      using bq by (simp add: pow2_nonneg_int nat_add_distrib)
    finally have lq: "of_int q < pow2 (ilog2_int q + 1)" .
    have "pow2 (?e - 1) * pow2 (ilog2_int q + 1) = pow2 (ilog2_int p)"
      by (simp add: pow2_add [symmetric])
    then have "pow2 (?e - 1) = pow2 (ilog2_int p) / pow2 (ilog2_int q + 1)"
      using pow2_pos [of "ilog2_int q + 1"] by (simp add: field_simps)
    also have "\<dots> \<le> of_int p / pow2 (ilog2_int q + 1)"
      using lp pow2_pos [of "ilog2_int q + 1"] by (simp add: divide_right_mono)
    also have "\<dots> \<le> of_int p / of_int q"
      using lq q p by (simp add: frac_le)
    finally show ?thesis using i a by simp
  qed
qed

lemma round_half_even_of_int: "round_half_even (of_int n) = n"
  by (simp add: round_half_even_def)

lemma round_half_even_nonneg: "0 \<le> y \<Longrightarrow> 0 \<le> round_half_even y"
  by (auto simp: round_half_even_def Let_def)

lemma round_half_even_le: "y \<le> of_int n \<Longrightarrow> round_half_even y \<le> n"
proof -
  assume h: "y \<le> of_int n"
  then have f: "\<lfloor>y\<rfloor> \<le> n" by (simp add: floor_le_iff) 
  show ?thesis
  proof (cases "\<lfloor>y\<rfloor> = n")
    case True
    then have "y - of_int \<lfloor>y\<rfloor> \<le> 0" using h by simp
    then show ?thesis using True by (simp add: round_half_even_def Let_def)
  next
    case False
    with f have "\<lfloor>y\<rfloor> + 1 \<le> n" by simp
    then show ?thesis using f by (auto simp: round_half_even_def Let_def)
  qed
qed

lemma round_half_even_small: "0 \<le> y \<Longrightarrow> y \<le> 1 / 2 \<Longrightarrow> round_half_even y = 0"
proof -
  assume h: "0 \<le> y" "y \<le> 1 / 2"
  then have f: "\<lfloor>y\<rfloor> = 0" by (simp add: floor_eq_iff)
  show ?thesis using h by (simp add: round_half_even_def Let_def f)
qed

text \<open>A number of the form m * 2^k with |m| < 2^53, k >= -1074, below 2^1024 is a double.\<close>

lemma f64_round_exact:
  assumes x: "x = of_int m * pow2 k" and m: "\<bar>m\<bar> < 2 ^ 53" and k: "- 1074 \<le> k"
      and big: "\<bar>x\<bar> < pow2 1024"
  shows "f64_round x = Finite x"
proof (cases "x = 0")
  case True
  then show ?thesis by (simp add: f64_round_def)
next
  case False
  define a where "a = \<bar>x\<bar>"
  define e where "e = max (ilog2 a) (- 1022)"
  define q where "q = pow2 (e - 52)"
  have a0: "0 < a" using False by (simp add: a_def)
  have am: "a = of_int \<bar>m\<bar> * pow2 k"
    using pow2_pos [of k] by (simp add: a_def x abs_mult)
  have "of_int \<bar>m\<bar> < (of_int (2 ^ 53) :: rat)"
    using m by (simp only: of_int_less_iff)
  then have "of_int \<bar>m\<bar> < pow2 53" by (simp add: pow2_def)
  then have "a < pow2 53 * pow2 k"
    unfolding am using pow2_pos [of k] by (simp add: mult_strict_right_mono)
  then have "pow2 (ilog2 a) < pow2 (53 + k)"
    using ilog2_le [OF a0] by (simp add: pow2_add)
  then have "ilog2 a < 53 + k" by (rule pow2_less_imp)
  with k have ek: "e \<le> k + 52" by (simp add: e_def)
  have "a / q = of_int \<bar>m\<bar> * (pow2 k / pow2 (e - 52))"
    by (simp add: am q_def)
  also have "pow2 k / pow2 (e - 52) = pow2 (k - e + 52)"
  proof -
    have "pow2 (k - e + 52) * pow2 (e - 52) = pow2 k"
      by (simp add: pow2_add [symmetric])
    then show ?thesis using pow2_pos [of "e - 52"] by (simp add: field_simps)
  qed
  also have "\<dots> = of_int (2 ^ nat (k - e + 52))"
    using ek by (simp add: pow2_nonneg_int)
  finally have "a / q = of_int (\<bar>m\<bar> * 2 ^ nat (k - e + 52))" by simp
  then have "of_int (round_half_even (a / q)) = a / q"
    by (simp only: round_half_even_of_int)
  then have r: "of_int (round_half_even (a / q)) * q = a"
    using pow2_pos [of "e - 52"] by (simp add: q_def)
  have nb: "\<not> pow2 1024 \<le> a" using big by (simp add: a_def)
  show ?thesis
    using False r nb
    unfolding f64_round_def Let_def a_def [symmetric] e_def [symmetric] q_def [symmetric]
    by (auto simp: a_def)
qed

lemma f64_round_quarters:
  assumes "of_int \<lfloor>4 * x\<rfloor> = 4 * x" and "\<bar>x\<bar> < 2 ^ 51"
  shows "f64_round x = Finite x"
proof (rule f64_round_exact [where m = "\<lfloor>4 * x\<rfloor>" and k = "- 2"])
  have p: "pow2 (- 2) = 1 / 4" by (simp add: pow2_def)
  show "x = of_int \<lfloor>4 * x\<rfloor> * pow2 (- 2)"
    unfolding assms(1) p by simp
  have "\<bar>4 * x\<bar> < 2 ^ 53" using assms(2) by simp
  then have "\<bar>(of_int \<lfloor>4 * x\<rfloor> :: rat)\<bar> < of_int (2 ^ 53)"
    unfolding assms(1) by simp
  then show "\<bar>\<lfloor>4 * x\<rfloor>\<bar> < 2 ^ 53"
    by (simp only: of_int_abs [symmetric] of_int_less_iff)
  show "- 1074 \<le> (- 2 :: int)" by simp
  have "(2::rat) ^ 51 \<le> 2 ^ 1024" by (rule power_increasing) simp_all
  then show "\<bar>x\<bar> < pow2 1024" using assms(2) by (simp add: pow2_def)
qed

lemma as_double_quarters:
  "of_int \<lfloor>4 * x\<rfloor> = 4 * x \<Longrightarrow> \<bar>x\<bar> < 2 ^ 51 \<Longrightarrow> as_double x = x"
  by (simp add: as_double_def f64_round_quarters)

lemma as_double_unit:
  assumes "0 \<le> x" "x \<le> 1"
  shows "0 \<le> as_double x \<and> as_double x \<le> 1"
proof (cases "x = 0")
  case True
  then show ?thesis by (simp add: as_double_def f64_round_def)
next
  case False
  with assms have x0: "0 < x" by simp
  define e where "e = max (ilog2 \<bar>x\<bar>) (- 1022)"
  define q where "q = pow2 (e - 52)"
  define r where "r = of_int (round_half_even (\<bar>x\<bar> / q)) * q"
  have q0: "0 < q" by (simp add: q_def pow2_pos)
  have y0: "0 \<le> \<bar>x\<bar> / q" using q0 by simp
  have r0: "0 \<le> r"
    using round_half_even_nonneg [OF y0] q0 by (simp add: r_def)
  have r1: "r \<le> 1"
  proof (cases "e \<le> 52")
    case True
    then have "1 / q = of_int (2 ^ nat (52 - e))"
    proof -
      have "pow2 (52 - e) * pow2 (e - 52) = pow2 0" by (simp add: pow2_add [symmetric])
      then have "1 / q = pow2 (52 - e)" using q0 by (simp add: q_def field_simps pow2_def)
      then show ?thesis using True by (simp add: pow2_nonneg_int)
    qed
    moreover have "\<bar>x\<bar> / q \<le> 1 / q" using assms q0 by (simp add: divide_right_mono)
    ultimately have "round_half_even (\<bar>x\<bar> / q) \<le> 2 ^ nat (52 - e)"
      by (simp add: round_half_even_le)
    then have "(of_int (round_half_even (\<bar>x\<bar> / q)) :: rat) \<le> of_int (2 ^ nat (52 - e))"
      by (simp only: of_int_le_iff)
    then have "of_int (round_half_even (\<bar>x\<bar> / q)) \<le> 1 / q"
      using \<open>1 / q = of_int (2 ^ nat (52 - e))\<close> by simp
    then show ?thesis using q0 by (simp add: r_def field_simps)
  next
    case False
    then have "pow2 1 \<le> q" unfolding q_def by (intro pow2_mono) simp
    then have "2 \<le> q" by (simp add: pow2_def)
    then have "\<bar>x\<bar> / q \<le> 1 / 2"
      using assms q0 by (simp add: field_simps)
    with y0 have "round_half_even (\<bar>x\<bar> / q) = 0" by (rule round_half_even_small)
    then show ?thesis by (simp add: r_def)
  qed
  have "\<not> pow2 1024 \<le> r"
  proof -
    have "(1::rat) < 2 ^ 1024" by (rule one_less_power) simp_all
    then show ?thesis using r1 by (simp add: pow2_def)
  qed
  then have "f64_round x = Finite r"
    using False x0
    unfolding f64_round_def Let_def e_def [symmetric] q_def [symmetric] r_def [symmetric]
    by simp
  then show ?thesis using r0 r1 by (simp add: as_double_def)
qed

lemma floor_rat_numeral [simp]: "\<lfloor>(numeral a :: rat) / numeral b\<rfloor> = numeral a div numeral b"
  by (metis floor_divide_of_int_eq of_int_numeral)

lemma ilog2_less:
  assumes "0 < a"
  shows "a < pow2 (ilog2 a + 1)"
proof -
  obtain p q where pq: "quotient_of a = (p, q)" by (cases "quotient_of a")
  then have q: "0 < q" and a: "a = of_int p / of_int q"
    using quotient_of_denom_pos quotient_of_div by auto
  from assms a q have p: "1 \<le> p"
    by (simp add: zero_less_divide_iff)
  let ?e = "ilog2_int p - ilog2_int q"
  show ?thesis
  proof (cases "pow2 ?e \<le> a")
    case False
    then show ?thesis by (simp add: ilog2_def pq)
  next
    case True
    then have i: "ilog2 a = ?e" by (simp add: ilog2_def pq)
    from q have q1: "1 \<le> q" by simp
    note bp = ilog2_int_bounds [OF p] and bq = ilog2_int_bounds [OF q1]
    have lq: "pow2 (ilog2_int q) \<le> of_int q"
      using bq by (simp add: pow2_nonneg_int del: of_int_power)
    have "of_int p < (of_int (2 ^ (nat (ilog2_int p) + 1)) :: rat)"
      using bp by (simp only: of_int_less_iff)
    also have "\<dots> = pow2 (ilog2_int p + 1)"
      using bp by (simp add: pow2_nonneg_int nat_add_distrib)
    finally have lp: "of_int p < pow2 (ilog2_int p + 1)" .
    have "a < pow2 (ilog2_int p + 1) / of_int q"
      unfolding a using lp q by (simp add: divide_strict_right_mono)
    also have "\<dots> \<le> pow2 (ilog2_int p + 1) / pow2 (ilog2_int q)"
      using lq pow2_pos [of "ilog2_int q"] pow2_pos [of "ilog2_int p + 1"]
      by (simp add: frac_le)
    also have "\<dots> = pow2 (?e + 1)"
    proof -
      have "pow2 (?e + 1) * pow2 (ilog2_int q) = pow2 (ilog2_int p + 1)"
        by (simp add: pow2_add [symmetric])
      then show ?thesis using pow2_pos [of "ilog2_int q"] by (simp add: field_simps)
    qed
    finally show ?thesis using i by simp
  qed
qed

lemma ilog2_unique:
  assumes "pow2 i \<le> a" "a < pow2 (i + 1)"
  shows "ilog2 a = i"
proof -
  have a0: "0 < a" using assms(1) pow2_pos [of i] by simp
  have "pow2 (ilog2 a) < pow2 (i + 1)"
    using ilog2_le [OF a0] assms(2) by simp
  then have "ilog2 a < i + 1" by (rule pow2_less_imp)
  moreover have "pow2 i < pow2 (ilog2 a + 1)"
    using ilog2_less [OF a0] assms(1) by simp
  then have "i < ilog2 a + 1" by (rule pow2_less_imp)
  ultimately show ?thesis by simp
qed

lemma round_half_even_near:
  assumes "of_int m - 1 / 2 < y" "y < of_int m + 1 / 2"
  shows "round_half_even y = m"
proof (cases "of_int m \<le> y")
  case True
  then have f: "\<lfloor>y\<rfloor> = m" using assms(2) by (simp add: floor_eq_iff)
  show ?thesis using assms(2) by (simp add: round_half_even_def Let_def f)
next
  case False
  then have f: "\<lfloor>y\<rfloor> = m - 1" using assms(1) by (simp add: floor_eq_iff)
  show ?thesis using assms(1) by (simp add: round_half_even_def Let_def f)
qed

text \<open>A positive number within half a spacing of a normal double rounds to it.\<close>

lemma f64_round_nearest:
  assumes y: "y = of_int m * pow2 k" and m: "2 ^ 52 < m" "m < 2 ^ 53"
      and k: "- 1074 \<le> k" "k \<le> 971"
      and near: "\<bar>x - y\<bar> < pow2 (k - 1)"
  shows "f64_round x = Finite y"
proof -
  have h: "pow2 (k - 1) = pow2 k / 2"
    using pow2_add [of k "- 1"] by (simp add: pow2_def)
  have pk: "0 < pow2 k" by (rule pow2_pos)
  from near have "x - of_int m * pow2 k < pow2 k / 2" "- (pow2 k / 2) < x - of_int m * pow2 k"
    unfolding y h by (simp_all only: abs_less_iff minus_diff_eq) linarith+
  then have lo: "(of_int m - 1 / 2) * pow2 k < x" and hi: "x < (of_int m + 1 / 2) * pow2 k"
    by (simp_all add: algebra_simps)
  have m1: "(of_int (2 ^ 52 + 1) :: rat) \<le> of_int m" "(of_int m :: rat) \<le> of_int (2 ^ 53 - 1)"
    using m by (simp_all only: of_int_le_iff)
  have "pow2 52 * pow2 k \<le> (of_int m - 1 / 2) * pow2 k"
    using m1(1) pk by (intro mult_right_mono) (simp_all add: pow2_def)
  with lo have l2: "pow2 (k + 52) \<le> x" by (simp add: pow2_add mult.commute)
  have "(of_int m + 1 / 2) * pow2 k \<le> pow2 53 * pow2 k"
    using m1(2) pk by (intro mult_right_mono) (simp_all add: pow2_def)
  with hi have u2: "x < pow2 (k + 52 + 1)" by (simp add: pow2_add mult.commute)
  have x0: "0 < x" using l2 pow2_pos [of "k + 52"] by simp
  have e: "ilog2 x = k + 52" using l2 u2 by (rule ilog2_unique)
  have mx: "max (k + 52) (- 1022) = k + 52" using k by simp
  have "round_half_even (x / pow2 k) = m"
    using lo hi pk by (intro round_half_even_near) (simp_all add: field_simps)
  then have r: "of_int (round_half_even (x / pow2 k)) * pow2 k = y" by (simp add: y)
  have "y < pow2 53 * pow2 k"
    unfolding y using m1(2) pk by (intro mult_strict_right_mono) (simp_all add: pow2_def)
  also have "\<dots> = pow2 (k + 53)" by (simp add: pow2_add mult.commute)
  also have "\<dots> \<le> pow2 1024" using k by (intro pow2_mono) simp
  finally have nb: "\<not> pow2 1024 \<le> y" by simp
  show ?thesis
    using x0 r nb by (simp add: f64_round_def Let_def e mx)
qed

lemma as_double_nearest:
  "y = of_int m * pow2 k \<Longrightarrow> 2 ^ 52 < m \<Longrightarrow> m < 2 ^ 53 \<Longrightarrow> - 1074 \<le> k \<Longrightarrow> k \<le> 971
     \<Longrightarrow> \<bar>x - y\<bar> < pow2 (k - 1) \<Longrightarrow> as_double x = y"
  by (simp add: as_double_def f64_round_nearest)

lemma as_double_two_thirds: "as_double (2 / 3) = 6004799503160661 / 9007199254740992"
  by (rule as_double_nearest [where m = 6004799503160661 and k = "- 53"])
     (simp_all add: pow2_def)

lemma as_double_retention:
  "as_double (150119987579016525 / 2251799813685248) = 2345624805922133 / 35184372088832"
  by (rule as_double_nearest [where m = 4691249611844266 and k = "- 46"])
     (simp_all add: pow2_def)

subsection \<open>The comparison engine\<close>

lemma cell_selected: "n \<in> set names \<Longrightarrow> cell (map (\<lambda>n. (n, cell r n)) names) n = cell r n"
  by (simp add: cell_def map_of_map_restrict)

lemma key_tuple_selected:
  "key_tuple keys (map (\<lambda>n. (n, cell r n)) keys) = key_tuple keys r"
  by (simp add: key_tuple_def cell_selected)

lemma select_ok:
  assumes "set names \<subseteq> set (columns df)" "distinct names"
  shows "select names df = Inr \<lparr>schema = map (\<lambda>n. (n, dtype_of df n)) names,
                               rows = map (\<lambda>r. map (\<lambda>n. (n, cell r n)) names) (rows df)\<rparr>"
proof -
  have "filter (\<lambda>n. n \<notin> set (columns df)) names = []"
    using assms(1) by (auto simp: filter_empty_conv)
  then show ?thesis using assms(2) by (simp add: select_def)
qed

lemma keys_of_select:
  "select keys df = Inr sel \<Longrightarrow> keys_of keys sel = keys_of keys df"
  by (auto simp: select_def keys_of_def key_tuple_selected split: list.splits if_splits)

lemma dtype_of_select:
  "select keys df = Inr sel \<Longrightarrow> k \<in> set keys \<Longrightarrow> dtype_of sel k = dtype_of df k"
  by (auto simp: select_def dtype_of_def map_of_map_restrict split: list.splits if_splits)

lemma columns_select: "select keys df = Inr sel \<Longrightarrow> columns sel = keys"
  by (auto simp: select_def columns_def comp_def split: list.splits if_splits)

lemma key_dtypes_agree_select:
  "select keys right = Inr sel \<Longrightarrow>
     key_dtypes_agree keys left (unique sel) = key_dtypes_agree keys left right"
  by (auto simp: key_dtypes_agree_def list_all_iff unique_def dtype_of_def
      dest: dtype_of_select [unfolded dtype_of_def])

lemma key_dtypes_agree_sym:
  "key_dtypes_agree keys left right = key_dtypes_agree keys right left"
  by (auto simp: key_dtypes_agree_def list_all_iff)

lemma distinct_iff_count_le1: "distinct ks \<longleftrightarrow> (\<forall>k\<in>set ks. count_list ks k \<le> 1)"
  by (induction ks) (auto simp: count_list_0_iff)

lemma cell_count_row:
  "''count'' \<notin> set keys \<Longrightarrow> cell (zip keys k @ [(''count'', v)]) ''count'' = v"
proof -
  assume "''count'' \<notin> set keys"
  then have "''count'' \<notin> fst ` set (zip keys k)"
    by (auto dest: set_zip_leftD)
  then have "map_of (zip keys k) ''count'' = None"
    by (simp add: map_of_eq_None_iff)
  then show ?thesis by (simp add: cell_def map_add_def)
qed

lemma duplicate_check_empty_iff:
  assumes "keys \<noteq> []" "''count'' \<notin> set keys"
  shows "\<exists>groups. group_by_count keys df = Inr groups
     \<and> (rows (filter_rows (\<lambda>r. int_of (cell r ''count'') > 1) groups) = []
          \<longleftrightarrow> distinct (keys_of keys df))"
proof -
  let ?ks = "keys_of keys df"
  let ?g = "\<lparr>schema = map (\<lambda>k. (k, dtype_of df k)) keys @ [(''count'', pl_UInt32)],
            rows = map (\<lambda>k. zip keys k @ [(''count'', PyInt (int (count_list ?ks k)))])
                     (remdups ?ks)\<rparr>"
  have g: "group_by_count keys df = Inr ?g"
    using assms by (simp add: group_by_count_def keys_of_def Let_def)
  have "rows (filter_rows (\<lambda>r. int_of (cell r ''count'') > 1) ?g) = []
      \<longleftrightarrow> (\<forall>k\<in>set ?ks. \<not> 1 < count_list ?ks k)"
    using assms(2) by (simp add: filter_rows_def filter_empty_conv cell_count_row)
  also have "\<dots> \<longleftrightarrow> distinct ?ks"
    by (auto simp: distinct_iff_count_le1 [of ?ks] not_less)
  finally show ?thesis using g by blast
qed

lemma validate_primary_keys_eq:
  assumes "primary_keys self \<noteq> []" "distinct (primary_keys self)"
      and "''count'' \<notin> set (primary_keys self)"
  shows "validate_primary_keys self df year_label =
     (if filter (\<lambda>key. key \<notin> set (columns df)) (primary_keys self) \<noteq> []
      then Inl (ValueError_keys_not_found
                 (filter (\<lambda>key. key \<notin> set (columns df)) (primary_keys self)) year_label)
      else if \<not> distinct (keys_of (primary_keys self) df) then Inl (ValueError_duplicate_keys year_label)
      else Inr True)"
proof (cases "filter (\<lambda>key. key \<notin> set (columns df)) (primary_keys self) = []")
  case False
  then show ?thesis by (simp add: validate_primary_keys_def Let_def)
next
  case m: True
  then have sub: "set (primary_keys self) \<subseteq> set (columns df)"
    by (auto simp: filter_empty_conv)
  note sel = select_ok [OF sub assms(2)]
  let ?sel = "\<lparr>schema = map (\<lambda>n. (n, dtype_of df n)) (primary_keys self),
        rows = map (\<lambda>r. map (\<lambda>n. (n, cell r n)) (primary_keys self)) (rows df)\<rparr>"
  have ks: "keys_of (primary_keys self) ?sel = keys_of (primary_keys self) df"
    using keys_of_select [OF sel] .
  from duplicate_check_empty_iff [OF assms(1,3), of ?sel] obtain groups where
    g: "group_by_count (primary_keys self) ?sel = Inr groups"
    and d: "rows (filter_rows (\<lambda>r. int_of (cell r ''count'') > 1) groups) = []
          \<longleftrightarrow> distinct (keys_of (primary_keys self) df)"
    unfolding ks by blast
  show ?thesis
    unfolding validate_primary_keys_def Let_def m sel
    using d by (simp add: g)
qed

lemma validate_ok_iff:
  "validate_primary_keys self df year_label = Inr b \<longleftrightarrow>
     b \<and> primary_keys self \<noteq> [] \<and> distinct (primary_keys self)
     \<and> ''count'' \<notin> set (primary_keys self)
     \<and> set (primary_keys self) \<subseteq> set (columns df) \<and> distinct (keys_of (primary_keys self) df)"
proof (cases "set (primary_keys self) \<subseteq> set (columns df)")
  case False
  then have "filter (\<lambda>key. key \<notin> set (columns df)) (primary_keys self) \<noteq> []"
    by (auto simp: filter_empty_conv)
  with False show ?thesis by (simp add: validate_primary_keys_def Let_def)
next
  case sub: True
  then have m: "filter (\<lambda>key. key \<notin> set (columns df)) (primary_keys self) = []"
    by (auto simp: filter_empty_conv)
  show ?thesis
  proof (cases "distinct (primary_keys self)")
    case False
    then show ?thesis
      unfolding validate_primary_keys_def Let_def m by (simp add: select_def m)
  next
    case d: True
    note sel = select_ok [OF sub d]
    show ?thesis
    proof (cases "primary_keys self = [] \<or> ''count'' \<in> set (primary_keys self)")
      case True
      then show ?thesis
        unfolding validate_primary_keys_def Let_def m sel
        by (auto simp: group_by_count_def)
    next
      case False
      then have k: "primary_keys self \<noteq> []" "''count'' \<notin> set (primary_keys self)" by simp_all
      show ?thesis
        using validate_primary_keys_eq [OF k(1) d k(2), of df year_label] sub d k m by auto
    qed
  qed
qed

lemma anti_join_unique_select:
  assumes "select keys right = Inr sel"
  shows "anti_join keys left (unique sel) =
     (if key_dtypes_agree keys left right
      then Inr (left\<lparr>rows := unmatched_rows keys left right\<rparr>) else Inl SchemaError)"
proof -
  have "set (map (key_tuple keys) (rows (unique sel))) = set (keys_of keys sel)"
    by (simp add: unique_def keys_of_def)
  also have "\<dots> = set (keys_of keys right)"
    using keys_of_select [OF assms] by simp
  finally have "\<And>k. key_matches k (map (key_tuple keys) (rows (unique sel)))
      = (PyNone \<notin> set k \<and> k \<in> set (keys_of keys right))"
    unfolding key_matches_def by simp
  then show ?thesis
    by (simp add: anti_join_def unmatched_rows_def key_dtypes_agree_select [OF assms])
qed

lemma compare_datasets_eq:
  assumes "validate_primary_keys self current_data ''current'' = Inr a"
      and "validate_primary_keys self previous_data ''previous'' = Inr b"
  shows "compare_datasets self current_data previous_data =
    (if \<not> key_dtypes_agree (primary_keys self) current_data previous_data then Inl SchemaError
     else if rows previous_data = [] then Inl ZeroDivisionError
     else case outer_join (primary_keys self) ''_prev'' current_data previous_data of
       Inl e \<Rightarrow> Inl e
     | Inr joined \<Rightarrow>
       Inr \<lparr>joined_data = joined,
            table_lapsed = previous_data\<lparr>rows := unmatched_rows (primary_keys self) previous_data current_data\<rparr>,
            table_new = current_data\<lparr>rows := unmatched_rows (primary_keys self) current_data previous_data\<rparr>,
            stats = \<lparr>total_records_current = int (length (rows current_data)),
                     total_records_previous = int (length (rows previous_data)),
                     lapsed_records = int (length (unmatched_rows (primary_keys self) previous_data current_data)),
                     new_records = int (length (unmatched_rows (primary_keys self) current_data previous_data)),
                     retention_rate =
                       as_double (as_double (of_int (int (length (rows current_data))
                               - int (length (unmatched_rows (primary_keys self) current_data previous_data)))
                           / of_int (int (length (rows previous_data)))) * 100)\<rparr>\<rparr>)"
proof -
  from assms(1) have c: "distinct (primary_keys self)" "set (primary_keys self) \<subseteq> set (columns current_data)"
    by (simp_all add: validate_ok_iff)
  from assms(2) have p: "set (primary_keys self) \<subseteq> set (columns previous_data)"
    by (simp add: validate_ok_iff)
  note sc = select_ok [OF c(2) c(1)]
  note sp = select_ok [OF p c(1)]
  show ?thesis
    unfolding compare_datasets_def assms sc sp
    by (simp add: Let_def anti_join_unique_select [OF sc] anti_join_unique_select [OF sp]
        py_truediv_def key_dtypes_agree_sym [of _ previous_data current_data]
        split: sum.splits)
qed

lemma length_matched:
  assumes "distinct (map f xs)"
  shows "length (filter (\<lambda>x. P (f x)) xs) = length (filter P (remdups (map f xs)))"
proof -
  have "length (filter P (map f xs)) = length (filter (\<lambda>x. P (f x)) xs)"
    by (simp add: filter_map comp_def)
  then show ?thesis using assms by (simp add: distinct_remdups_id)
qed

lemma matched_rows_count:
  assumes "distinct (keys_of keys a)"
  shows "int (length (rows a)) - int (length (unmatched_rows keys a b))
       = int (length (matched_keys keys a b))"
proof -
  let ?m = "\<lambda>k. PyNone \<notin> set k \<and> k \<in> set (keys_of keys b)"
  have "unmatched_rows keys a b = filter (\<lambda>r. \<not> ?m (key_tuple keys r)) (rows a)"
    unfolding unmatched_rows_def by (rule filter_cong) auto
  then have "length (rows a) =
      length (filter (\<lambda>r. ?m (key_tuple keys r)) (rows a)) + length (unmatched_rows keys a b)"
    using sum_length_filter_compl [of "\<lambda>r. ?m (key_tuple keys r)" "rows a"] by simp
  moreover have "length (filter (\<lambda>r. ?m (key_tuple keys r)) (rows a)) = length (matched_keys keys a b)"
    using length_matched [of "key_tuple keys" "rows a" ?m] assms
    by (simp add: keys_of_def matched_keys_def)
  ultimately show ?thesis by simp
qed

lemma matched_keys_sym:
  assumes "distinct (keys_of keys a)" "distinct (keys_of keys b)"
  shows "length (matched_keys keys a b) = length (matched_keys keys b a)"
proof -
  have "distinct (matched_keys keys a b)" "distinct (matched_keys keys b a)"
    by (simp_all add: matched_keys_def)
  then have "length (matched_keys keys a b) = card (set (matched_keys keys a b))"
    "length (matched_keys keys b a) = card (set (matched_keys keys b a))"
    by (simp_all add: distinct_card)
  moreover have "set (matched_keys keys a b) = set (matched_keys keys b a)"
    by (auto simp: matched_keys_def)
  ultimately show ?thesis by simp
qed

lemma outer_join_ok:
  assumes "key_dtypes_agree keys left right" "distinct (join_columns suffix left right)"
  shows "\<exists>joined. outer_join keys suffix left right = Inr joined"
  using assms by (simp add: outer_join_def Let_def)

lemmas engine_defs = by_id_def id_frame_def validate_primary_keys_def select_def group_by_count_def
  key_tuple_def cell_def compare_datasets_def unique_def anti_join_def key_matches_def
  py_truediv_def Let_def keys_of_def unmatched_rows_def absent_rows_def columns_def dtype_of_def
  filter_rows_def key_dtypes_agree_def outer_join_def join_columns_def join_name_def
  matched_keys_def

text \<open>
  Claim C1. When the previous table has no rows, the retention rate is undefined and
  \<^verbatim>\<open>compare_datasets\<close> should report that as a value. It does not: for every pair of tables
  that pass validation with an empty previous table the function leaves with an uncaught
  exception. When the key columns have the same data types in both tables it is the
  \<^verbatim>\<open>ZeroDivisionError\<close> of the Python expression
  \<^verbatim>\<open>(total_current - new) / total_previous * 100\<close> on two ints; otherwise the joins before
  it have already raised.
\<close>

theorem compare_zero_previous_raises:
  assumes "validate_primary_keys self current_data ''current'' = Inr True"
      and "validate_primary_keys self previous_data ''previous'' = Inr True"
      and "rows previous_data = []"
  shows "compare_datasets self current_data previous_data =
     Inl (if key_dtypes_agree (primary_keys self) current_data previous_data
          then ZeroDivisionError else SchemaError)"
  using compare_datasets_eq [OF assms(1,2)] assms(3) by simp

theorem compare_zero_previous_raises_witness:
  "validate_primary_keys by_id (id_frame [PyInt 1, PyInt 2]) ''current'' = Inr True
   \<and> validate_primary_keys by_id (id_frame []) ''previous'' = Inr True
   \<and> rows (id_frame []) = []
   \<and> key_dtypes_agree (primary_keys by_id) (id_frame [PyInt 1, PyInt 2]) (id_frame [])
   \<and> compare_datasets by_id (id_frame [PyInt 1, PyInt 2]) (id_frame []) = Inl ZeroDivisionError"
proof -
  have a: "validate_primary_keys by_id (id_frame [PyInt 1, PyInt 2]) ''current'' = Inr True"
    by (simp add: engine_defs)
  have b: "validate_primary_keys by_id (id_frame []) ''previous'' = Inr True"
    by (simp add: engine_defs)
  have c: "rows (id_frame []) = []" by (simp add: id_frame_def)
  have d: "key_dtypes_agree (primary_keys by_id) (id_frame [PyInt 1, PyInt 2]) (id_frame [])"
    by (simp add: engine_defs)
  from compare_zero_previous_raises [OF a b c] a b c d show ?thesis by simp
qed

text \<open>
  Claim C3, as the code has it. Take two tables that pass validation on a non-empty key list,
  whose key columns have the same data types in both tables, whose column names do not
  collide in the outer join (no name of the previous table, with the suffix \<open>_prev\<close> where
  the current table has the name too, occurs twice), the previous one with at least one row.
  Then \<^verbatim>\<open>compare_datasets\<close> returns; new are the rows of the current table whose key tuple
  holds a null or is absent from the key tuples of the previous table, lapsed the rows of the
  previous table whose key tuple holds a null or is absent from those of the current table; the
  four counts are the row counts of the two tables and of the two partitions, and the retention
  rate is \<open>(total_current - new) / total_previous * 100\<close> computed in floats.
\<close>

theorem compare_new_and_lapsed:
  assumes "validate_primary_keys self current_data ''current'' = Inr True"
      and "validate_primary_keys self previous_data ''previous'' = Inr True"
      and "primary_keys self \<noteq> []"
      and "key_dtypes_agree (primary_keys self) current_data previous_data"
      and "distinct (join_columns ''_prev'' current_data previous_data)"
      and "rows previous_data \<noteq> []"
  shows "\<exists>res. compare_datasets self current_data previous_data = Inr res
     \<and> schema (table_new res) = schema current_data
     \<and> rows (table_new res) =
         filter (\<lambda>r. PyNone \<in> set (key_tuple (primary_keys self) r)
                    \<or> key_tuple (primary_keys self) r \<notin> set (keys_of (primary_keys self) previous_data))
           (rows current_data)
     \<and> schema (table_lapsed res) = schema previous_data
     \<and> rows (table_lapsed res) =
         filter (\<lambda>r. PyNone \<in> set (key_tuple (primary_keys self) r)
                    \<or> key_tuple (primary_keys self) r \<notin> set (keys_of (primary_keys self) current_data))
           (rows previous_data)
     \<and> total_records_current (stats res) = int (length (rows current_data))
     \<and> total_records_previous (stats res) = int (length (rows previous_data))
     \<and> new_records (stats res) = int (length (rows (table_new res)))
     \<and> lapsed_records (stats res) = int (length (rows (table_lapsed res)))
     \<and> retention_rate (stats res) =
         as_double (as_double (of_int (total_records_current (stats res) - new_records (stats res))
                                / of_int (total_records_previous (stats res))) * 100)"
proof -
  from outer_join_ok [OF assms(4,5)] obtain joined where
    "outer_join (primary_keys self) ''_prev'' current_data previous_data = Inr joined" ..
  then show ?thesis
    using compare_datasets_eq [OF assms(1,2)] assms(4,6) by (simp add: unmatched_rows_def)
qed

text \<open>
  The example of claim C3: current keys 1, 2, 3 and previous keys 2, 3, 4 give new = 1,
  lapsed = 4, all four counts as expected and the retention rate \<open>(3 - 1) / 3 * 100\<close>, which in
  floats is the double printed as 66.66666666666666.
\<close>

theorem compare_new_and_lapsed_witness:
  "validate_primary_keys by_id (id_frame [PyInt 1, PyInt 2, PyInt 3]) ''current'' = Inr True
   \<and> validate_primary_keys by_id (id_frame [PyInt 2, PyInt 3, PyInt 4]) ''previous'' = Inr True
   \<and> primary_keys by_id \<noteq> []
   \<and> key_dtypes_agree (primary_keys by_id) (id_frame [PyInt 1, PyInt 2, PyInt 3])
        (id_frame [PyInt 2, PyInt 3, PyInt 4])
   \<and> distinct (join_columns ''_prev'' (id_frame [PyInt 1, PyInt 2, PyInt 3])
        (id_frame [PyInt 2, PyInt 3, PyInt 4]))
   \<and> rows (id_frame [PyInt 2, PyInt 3, PyInt 4]) \<noteq> []
   \<and> (\<exists>res. compare_datasets by_id (id_frame [PyInt 1, PyInt 2, PyInt 3])
                (id_frame [PyInt 2, PyInt 3, PyInt 4]) = Inr res
          \<and> table_new res = id_frame [PyInt 1]
          \<and> table_lapsed res = id_frame [PyInt 4]
          \<and> stats res = \<lparr>total_records_current = 3, total_records_previous = 3,
                          lapsed_records = 1, new_records = 1,
                          retention_rate = 2345624805922133 / 35184372088832\<rparr>)"
proof -
  let ?c = "id_frame [PyInt 1, PyInt 2, PyInt 3]" and ?p = "id_frame [PyInt 2, PyInt 3, PyInt 4]"
  have a: "validate_primary_keys by_id ?c ''current'' = Inr True"
    by (simp add: engine_defs)
  have b: "validate_primary_keys by_id ?p ''previous'' = Inr True"
    by (simp add: engine_defs)
  have k: "primary_keys by_id \<noteq> []" by (simp add: by_id_def)
  have t: "key_dtypes_agree (primary_keys by_id) ?c ?p" by (simp add: engine_defs)
  have j: "distinct (join_columns ''_prev'' ?c ?p)" by (simp add: engine_defs)
  have c: "rows ?p \<noteq> []" by (simp add: id_frame_def)
  from compare_new_and_lapsed [OF a b k t j c] obtain res where
    r: "compare_datasets by_id ?c ?p = Inr res"
    and f: "schema (table_new res) = schema ?c"
      "rows (table_new res) = filter (\<lambda>r. PyNone \<in> set (key_tuple (primary_keys by_id) r)
          \<or> key_tuple (primary_keys by_id) r \<notin> set (keys_of (primary_keys by_id) ?p)) (rows ?c)"
      "schema (table_lapsed res) = schema ?p"
      "rows (table_lapsed res) = filter (\<lambda>r. PyNone \<in> set (key_tuple (primary_keys by_id) r)
          \<or> key_tuple (primary_keys by_id) r \<notin> set (keys_of (primary_keys by_id) ?c)) (rows ?p)"
    and s: "total_records_current (stats res) = int (length (rows ?c))"
      "total_records_previous (stats res) = int (length (rows ?p))"
      "new_records (stats res) = int (length (rows (table_new res)))"
      "lapsed_records (stats res) = int (length (rows (table_lapsed res)))"
      "retention_rate (stats res) =
         as_double (as_double (of_int (total_records_current (stats res) - new_records (stats res))
                                / of_int (total_records_previous (stats res))) * 100)"
    by blast
  have n: "table_new res = id_frame [PyInt 1]"
    using f(1,2) by (simp add: engine_defs)
  have l: "table_lapsed res = id_frame [PyInt 4]"
    using f(3,4) by (simp add: engine_defs)
  have st: "stats res = \<lparr>total_records_current = 3, total_records_previous = 3,
                          lapsed_records = 1, new_records = 1,
                          retention_rate = 2345624805922133 / 35184372088832\<rparr>"
    using s n l by (simp add: id_frame_def as_double_two_thirds as_double_retention)
  from a b k t j c r n l st show ?thesis by blast
qed

text \<open>
  Claim C3 as stated fails on null keys: here both tables hold the keys null and 1 and pass
  validation. The null key of the current table is in the key set of the previous table, so no
  row is absent (\<open>absent_rows\<close> is empty), but the anti-join never matches a null and the row
  is returned as new, and likewise as lapsed.
\<close>

theorem compare_null_keys_counterexample:
  "validate_primary_keys by_id (id_frame [PyNone, PyInt 1]) ''current'' = Inr True
   \<and> validate_primary_keys by_id (id_frame [PyNone, PyInt 1]) ''previous'' = Inr True
   \<and> map_sum id table_new (compare_datasets by_id (id_frame [PyNone, PyInt 1]) (id_frame [PyNone, PyInt 1]))
       = Inr (id_frame [PyNone])
   \<and> map_sum id table_lapsed (compare_datasets by_id (id_frame [PyNone, PyInt 1]) (id_frame [PyNone, PyInt 1]))
       = Inr (id_frame [PyNone])
   \<and> absent_rows [''id''] (id_frame [PyNone, PyInt 1]) (id_frame [PyNone, PyInt 1]) = []"
  by (simp add: engine_defs)

text \<open>
  Claim C7, as the code has it. For a key list that is not empty, names no column twice and
  does not contain the name \<open>count\<close>, \<^verbatim>\<open>validate_primary_keys\<close> fails with the missing-keys
  error, listing every key column the table lacks and the label, when there is one; otherwise
  it fails with the duplicate-keys error, naming the label, when two rows have the same key
  tuple; otherwise it succeeds. \<^verbatim>\<open>compare_datasets\<close> runs it on the current and then on the
  previous table before anything else, and an error of either is the outcome of the whole
  comparison.
\<close>

theorem validate_primary_keys_outcomes:
  assumes "primary_keys self \<noteq> []" and "distinct (primary_keys self)"
      and "''count'' \<notin> set (primary_keys self)"
  shows "validate_primary_keys self df year_label =
      (if filter (\<lambda>key. key \<notin> set (columns df)) (primary_keys self) \<noteq> []
       then Inl (ValueError_keys_not_found
                  (filter (\<lambda>key. key \<notin> set (columns df)) (primary_keys self)) year_label)
       else if \<not> distinct (keys_of (primary_keys self) df)
       then Inl (ValueError_duplicate_keys year_label)
       else Inr True)
    \<and> (\<forall>e. validate_primary_keys self current_data ''current'' = Inl e
          \<longrightarrow> compare_datasets self current_data previous_data = Inl e)
    \<and> (\<forall>e. validate_primary_keys self current_data ''current'' = Inr True
            \<and> validate_primary_keys self previous_data ''previous'' = Inl e
          \<longrightarrow> compare_datasets self current_data previous_data = Inl e)"
proof (intro conjI allI impI)
  show "validate_primary_keys self df year_label =
      (if filter (\<lambda>key. key \<notin> set (columns df)) (primary_keys self) \<noteq> []
       then Inl (ValueError_keys_not_found
                  (filter (\<lambda>key. key \<notin> set (columns df)) (primary_keys self)) year_label)
       else if \<not> distinct (keys_of (primary_keys self) df)
       then Inl (ValueError_duplicate_keys year_label)
       else Inr True)"
    by (rule validate_primary_keys_eq [OF assms])
next
  fix e assume "validate_primary_keys self current_data ''current'' = Inl e"
  then show "compare_datasets self current_data previous_data = Inl e"
    by (simp add: compare_datasets_def)
next
  fix e assume "validate_primary_keys self current_data ''current'' = Inr True
            \<and> validate_primary_keys self previous_data ''previous'' = Inl e"
  then show "compare_datasets self current_data previous_data = Inl e"
    by (simp add: compare_datasets_def)
qed

theorem validate_primary_keys_outcomes_witness:
  "primary_keys by_id \<noteq> [] \<and> distinct (primary_keys by_id) \<and> ''count'' \<notin> set (primary_keys by_id)
   \<and> validate_primary_keys by_id (id_frame [PyInt 7, PyInt 7]) ''current''
        = Inl (ValueError_duplicate_keys ''current'')
   \<and> compare_datasets by_id (id_frame [PyInt 7, PyInt 7]) (id_frame [PyInt 7])
        = Inl (ValueError_duplicate_keys ''current'')
   \<and> validate_primary_keys by_id (id_frame [PyInt 7]) ''current'' = Inr True
   \<and> validate_primary_keys by_id \<lparr>schema = [(''name'', pl_String)], rows = [[(''name'', PyStr ''a'')]]\<rparr> ''previous''
        = Inl (ValueError_keys_not_found [''id''] ''previous'')
   \<and> compare_datasets by_id (id_frame [PyInt 7]) \<lparr>schema = [(''name'', pl_String)], rows = [[(''name'', PyStr ''a'')]]\<rparr>
        = Inl (ValueError_keys_not_found [''id''] ''previous'')"
proof -
  let ?dup = "id_frame [PyInt 7, PyInt 7]" and ?ok = "id_frame [PyInt 7]"
  let ?other = "\<lparr>schema = [(''name'', pl_String)], rows = [[(''name'', PyStr ''a'')]]\<rparr>"
  have k: "primary_keys by_id \<noteq> []" "distinct (primary_keys by_id)"
    "''count'' \<notin> set (primary_keys by_id)"
    by (simp_all add: by_id_def)
  have d: "validate_primary_keys by_id ?dup ''current'' = Inl (ValueError_duplicate_keys ''current'')"
    using validate_primary_keys_outcomes [OF k, of ?dup "''current''" ?dup ?ok]
    by (simp add: by_id_def id_frame_def keys_of_def key_tuple_def cell_def columns_def)
  have o: "validate_primary_keys by_id ?ok ''current'' = Inr True"
    using validate_primary_keys_outcomes [OF k, of ?ok "''current''" ?dup ?ok]
    by (simp add: by_id_def id_frame_def keys_of_def key_tuple_def cell_def columns_def)
  have m: "validate_primary_keys by_id ?other ''previous'' = Inl (ValueError_keys_not_found [''id''] ''previous'')"
    using validate_primary_keys_outcomes [OF k, of ?other "''previous''" ?dup ?ok]
    by (simp add: by_id_def columns_def)
  have cd: "compare_datasets by_id ?dup ?ok = Inl (ValueError_duplicate_keys ''current'')"
    using validate_primary_keys_outcomes [OF k, of ?dup "''current''" ?dup ?ok] d by blast
  have cm: "compare_datasets by_id ?ok ?other = Inl (ValueError_keys_not_found [''id''] ''previous'')"
    using validate_primary_keys_outcomes [OF k, of ?dup "''current''" ?ok ?other] o m by blast
  from k d o m cd cm show ?thesis by blast
qed

text \<open>
  Claim C7 as stated fails for a key list that names a column twice: the table has the
  column and no two rows with the same key tuple, so the claim promises success, but polars
  refuses to select a column twice and the validation leaves with that exception.
\<close>

theorem validate_repeated_key_counterexample:
  "set [''id'', ''id''] \<subseteq> set (columns (id_frame [PyInt 7]))
   \<and> distinct (keys_of [''id'', ''id''] (id_frame [PyInt 7]))
   \<and> validate_primary_keys \<lparr>primary_keys = [''id'', ''id''], join_type = ''outer'', chunk_size = 100000\<rparr>
        (id_frame [PyInt 7]) ''current'' = Inl DuplicateError"
  by (simp add: engine_defs)

text \<open>
  Claim C10. For two tables that pass validation, the statistics of every result that
  \<^verbatim>\<open>compare_datasets\<close> returns are tied to the tables: the totals are the row counts of the
  two tables, the new and lapsed counts are the row counts of the two partitions, and
  \<open>total_current - new\<close> and \<open>total_previous - lapsed\<close> both equal the number of matched key
  tuples (the key tuples without a null that both tables hold), with \<open>0 \<le> new \<le> total_current\<close>
  and \<open>0 \<le> lapsed \<le> total_previous\<close>. A result is returned whenever the key data types agree,
  the names of the outer join do not collide and the previous table has a row.
\<close>

theorem compare_matched_counts:
  assumes "validate_primary_keys self current_data ''current'' = Inr True"
      and "validate_primary_keys self previous_data ''previous'' = Inr True"
  shows "(key_dtypes_agree (primary_keys self) current_data previous_data
          \<and> distinct (join_columns ''_prev'' current_data previous_data)
          \<and> rows previous_data \<noteq> [] \<longrightarrow>
            (\<exists>res. compare_datasets self current_data previous_data = Inr res))
    \<and> (\<forall>res. compare_datasets self current_data previous_data = Inr res \<longrightarrow>
          total_records_current (stats res) = int (length (rows current_data))
          \<and> total_records_previous (stats res) = int (length (rows previous_data))
          \<and> new_records (stats res) = int (length (rows (table_new res)))
          \<and> lapsed_records (stats res) = int (length (rows (table_lapsed res)))
          \<and> rows (table_new res) =
              filter (\<lambda>r. PyNone \<in> set (key_tuple (primary_keys self) r)
                         \<or> key_tuple (primary_keys self) r
                              \<notin> set (keys_of (primary_keys self) previous_data))
                (rows current_data)
          \<and> rows (table_lapsed res) =
              filter (\<lambda>r. PyNone \<in> set (key_tuple (primary_keys self) r)
                         \<or> key_tuple (primary_keys self) r
                              \<notin> set (keys_of (primary_keys self) current_data))
                (rows previous_data)
          \<and> total_records_current (stats res) - new_records (stats res)
              = int (length (matched_keys (primary_keys self) current_data previous_data))
          \<and> total_records_previous (stats res) - lapsed_records (stats res)
              = int (length (matched_keys (primary_keys self) current_data previous_data))
          \<and> 0 \<le> new_records (stats res)
          \<and> new_records (stats res) \<le> total_records_current (stats res)
          \<and> 0 \<le> lapsed_records (stats res)
          \<and> lapsed_records (stats res) \<le> total_records_previous (stats res))"
proof -
  from assms have d: "distinct (keys_of (primary_keys self) current_data)"
    "distinct (keys_of (primary_keys self) previous_data)"
    by (simp_all add: validate_ok_iff)
  note mc = matched_rows_count [OF d(1), of previous_data]
  note mp = matched_rows_count [OF d(2), of current_data]
  note sym = matched_keys_sym [OF d]
  have le: "length (unmatched_rows (primary_keys self) x y) \<le> length (rows x)" for x y
    by (simp add: unmatched_rows_def)
  note eq = compare_datasets_eq [OF assms]
  have ex: "\<exists>res. compare_datasets self current_data previous_data = Inr res"
    if "key_dtypes_agree (primary_keys self) current_data previous_data"
      "distinct (join_columns ''_prev'' current_data previous_data)"
      "rows previous_data \<noteq> []"
  proof -
    from outer_join_ok [OF that(1,2)] obtain joined where
      "outer_join (primary_keys self) ''_prev'' current_data previous_data = Inr joined" ..
    then show ?thesis using eq that by simp
  qed
  have props: "total_records_current (stats res) = int (length (rows current_data))
          \<and> total_records_previous (stats res) = int (length (rows previous_data))
          \<and> new_records (stats res) = int (length (rows (table_new res)))
          \<and> lapsed_records (stats res) = int (length (rows (table_lapsed res)))
          \<and> rows (table_new res) = unmatched_rows (primary_keys self) current_data previous_data
          \<and> rows (table_lapsed res) = unmatched_rows (primary_keys self) previous_data current_data"
    if "compare_datasets self current_data previous_data = Inr res" for res
    using that eq by (auto split: if_splits sum.splits)
  show ?thesis
  proof (intro conjI allI impI)
    fix res
    assume r: "compare_datasets self current_data previous_data = Inr res"
    note p = props [OF r]
    from p show "total_records_current (stats res) = int (length (rows current_data))"
      "total_records_previous (stats res) = int (length (rows previous_data))"
      "new_records (stats res) = int (length (rows (table_new res)))"
      "lapsed_records (stats res) = int (length (rows (table_lapsed res)))"
      by simp_all
    from p show "rows (table_new res) =
              filter (\<lambda>r. PyNone \<in> set (key_tuple (primary_keys self) r)
                         \<or> key_tuple (primary_keys self) r
                              \<notin> set (keys_of (primary_keys self) previous_data))
                (rows current_data)"
      "rows (table_lapsed res) =
              filter (\<lambda>r. PyNone \<in> set (key_tuple (primary_keys self) r)
                         \<or> key_tuple (primary_keys self) r
                              \<notin> set (keys_of (primary_keys self) current_data))
                (rows previous_data)"
      by (simp_all add: unmatched_rows_def)
    from p mc show "total_records_current (stats res) - new_records (stats res)
              = int (length (matched_keys (primary_keys self) current_data previous_data))"
      by simp
    from p mp sym show "total_records_previous (stats res) - lapsed_records (stats res)
              = int (length (matched_keys (primary_keys self) current_data previous_data))"
      by simp
    from p show "0 \<le> new_records (stats res)" "0 \<le> lapsed_records (stats res)" by simp_all
    from p le [of current_data previous_data]
    show "new_records (stats res) \<le> total_records_current (stats res)" by simp
    from p le [of previous_data current_data]
    show "lapsed_records (stats res) \<le> total_records_previous (stats res)" by simp
  qed (use ex in blast)
qed

theorem compare_matched_counts_witness:
  "validate_primary_keys by_id (id_frame [PyInt 10, PyInt 20, PyNone, PyInt 30]) ''current'' = Inr True
   \<and> validate_primary_keys by_id (id_frame [PyNone, PyInt 20, PyInt 40]) ''previous'' = Inr True
   \<and> key_dtypes_agree (primary_keys by_id) (id_frame [PyInt 10, PyInt 20, PyNone, PyInt 30])
        (id_frame [PyNone, PyInt 20, PyInt 40])
   \<and> distinct (join_columns ''_prev'' (id_frame [PyInt 10, PyInt 20, PyNone, PyInt 30])
        (id_frame [PyNone, PyInt 20, PyInt 40]))
   \<and> rows (id_frame [PyNone, PyInt 20, PyInt 40]) \<noteq> []
   \<and> matched_keys (primary_keys by_id) (id_frame [PyInt 10, PyInt 20, PyNone, PyInt 30])
        (id_frame [PyNone, PyInt 20, PyInt 40]) = [[PyInt 20]]
   \<and> (\<exists>res. compare_datasets by_id (id_frame [PyInt 10, PyInt 20, PyNone, PyInt 30])
               (id_frame [PyNone, PyInt 20, PyInt 40]) = Inr res
          \<and> total_records_current (stats res) = 4
          \<and> new_records (stats res) = 3
          \<and> total_records_previous (stats res) = 3
          \<and> lapsed_records (stats res) = 2
          \<and> total_records_current (stats res) - new_records (stats res) = 1
          \<and> total_records_previous (stats res) - lapsed_records (stats res) = 1)"
proof -
  let ?c = "id_frame [PyInt 10, PyInt 20, PyNone, PyInt 30]"
  let ?p = "id_frame [PyNone, PyInt 20, PyInt 40]"
  have a: "validate_primary_keys by_id ?c ''current'' = Inr True"
    by (simp add: engine_defs)
  have b: "validate_primary_keys by_id ?p ''previous'' = Inr True"
    by (simp add: engine_defs)
  have t: "key_dtypes_agree (primary_keys by_id) ?c ?p" by (simp add: engine_defs)
  have j: "distinct (join_columns ''_prev'' ?c ?p)" by (simp add: engine_defs)
  have c: "rows ?p \<noteq> []" by (simp add: id_frame_def)
  have m: "matched_keys (primary_keys by_id) ?c ?p = [[PyInt 20]]"
    by (simp add: engine_defs)
  note th = compare_matched_counts [OF a b]
  from th t j c obtain res where r: "compare_datasets by_id ?c ?p = Inr res" by blast
  with th have i: "total_records_current (stats res) = int (length (rows ?c))"
    "total_records_previous (stats res) = int (length (rows ?p))"
    "total_records_current (stats res) - new_records (stats res)
        = int (length (matched_keys (primary_keys by_id) ?c ?p))"
    "total_records_previous (stats res) - lapsed_records (stats res)
        = int (length (matched_keys (primary_keys by_id) ?c ?p))"
    by blast+
  from i(1,2) have tc: "total_records_current (stats res) = 4" "total_records_previous (stats res) = 3"
    by (simp_all add: id_frame_def)
  from i(3,4) have d: "total_records_current (stats res) - new_records (stats res) = 1"
    "total_records_previous (stats res) - lapsed_records (stats res) = 1"
    by (simp_all add: m)
  from tc d have n: "new_records (stats res) = 3" "lapsed_records (stats res) = 2" by simp_all
  from a b t j c m r tc d n show ?thesis by blast
qed

subsection \<open>Numeric outliers\<close>

lemma detect_numeric_outliers_eq:
  assumes "get_column df column = Inr col"
      and "column \<noteq> ''method''" "column \<noteq> ''direction''"
      and "quantile (as_double (1 - as_double (percentile_threshold self / 100))) col = Inr up"
      and "quantile (as_double (percentile_threshold self / 100)) col = Inr lp"
      and "quantile (3 / 4) col = Inr (Some q3)"
      and "quantile (1 / 4) col = Inr (Some q1)"
  shows "detect_numeric_outliers quantile self df column =
     Inr \<lparr>schema = [(column, dtype_of df column), (''method'', pl_String), (''direction'', pl_String)],
          rows = map (iqr_row column q1 q3) (filter (iqr_flag q1 q3) col)\<rparr>"
proof -
  have c: "col = map (\<lambda>r. cell r column) (rows df)"
    using assms(1) by (auto simp: get_column_def split: if_splits)
  have f: "iqr_flag q1 q3 = (\<lambda>v. col_gt v (iqr_upper q1 q3) \<or> col_lt v (iqr_lower q1 q3))"
    by (auto simp: fun_eq_iff iqr_flag_def col_gt_def col_lt_def split: option.splits)
  show ?thesis
    using assms
    by (simp add: detect_numeric_outliers_def py_float_def Let_def select_exprs_def
        filter_rows_def iqr_upper_def [symmetric] iqr_lower_def [symmetric] f c
        filter_map comp_def iqr_row_def)
qed

lemma detect_numeric_outliers_percentile_unused:
  assumes "quantile (as_double (1 - as_double (percentile_threshold self / 100))) col = Inr a"
      and "quantile (as_double (percentile_threshold self / 100)) col = Inr b"
      and "quantile (as_double (1 - as_double (t / 100))) col = Inr a'"
      and "quantile (as_double (t / 100)) col = Inr b'"
      and "get_column df column = Inr col"
  shows "detect_numeric_outliers quantile (self\<lparr>percentile_threshold := t\<rparr>) df column
       = detect_numeric_outliers quantile self df column"
  using assms by (simp add: detect_numeric_outliers_def)

lemma percentile_levels:
  assumes "0 \<le> t" "t \<le> 100"
  shows "0 \<le> as_double (t / 100)" "as_double (t / 100) \<le> 1"
    "0 \<le> as_double (1 - as_double (t / 100))" "as_double (1 - as_double (t / 100)) \<le> 1"
proof -
  have "0 \<le> t / 100" "t / 100 \<le> 1" using assms by simp_all
  then have a: "0 \<le> as_double (t / 100) \<and> as_double (t / 100) \<le> 1" by (rule as_double_unit)
  then show "0 \<le> as_double (t / 100)" "as_double (t / 100) \<le> 1" by simp_all
  from a have "0 \<le> 1 - as_double (t / 100)" "1 - as_double (t / 100) \<le> 1" by simp_all
  then have "0 \<le> as_double (1 - as_double (t / 100)) \<and> as_double (1 - as_double (t / 100)) \<le> 1"
    by (rule as_double_unit)
  then show "0 \<le> as_double (1 - as_double (t / 100))" "as_double (1 - as_double (t / 100)) \<le> 1"
    by simp_all
qed

lemma pl_quantile_numeric:
  assumes "0 \<le> q" "q \<le> 1" and "\<forall>v \<in> set col. v = PyNone \<or> num_of v \<noteq> None"
  shows "\<exists>y. pl_quantile q col = Inr y"
proof -
  have "\<not> list_ex (\<lambda>v. v \<noteq> PyNone \<and> num_of v = None) col"
    using assms(3) by (auto simp: list_ex_iff)
  then show ?thesis using assms(1,2) by (simp add: pl_quantile_def Let_def)
qed

lemma pl_quantile_Some:
  assumes "0 \<le> q" "q \<le> 1"
      and "\<forall>v \<in> set col. v = PyNone \<or> num_of v \<noteq> None"
      and "\<exists>v \<in> set col. v \<noteq> PyNone"
  shows "\<exists>x. pl_quantile q col = Inr (Some x)"
proof -
  from assms(3,4) obtain v where "v \<in> set col" "num_of v \<noteq> None" by blast
  then have "List.map_filter num_of col \<noteq> []"
    by (auto simp: List.map_filter_def filter_empty_conv)
  then have "sort (List.map_filter num_of col) \<noteq> []"
    by (metis length_sort length_0_conv)
  moreover have "\<not> list_ex (\<lambda>v. v \<noteq> PyNone \<and> num_of v = None) col"
    using assms(3) by (auto simp: list_ex_iff)
  ultimately show ?thesis using assms(1,2) by (simp add: pl_quantile_def Let_def)
qed

lemma detect_numeric_outliers_pl:
  assumes "get_column df column = Inr col"
      and "column \<noteq> ''method''" "column \<noteq> ''direction''"
      and "0 \<le> percentile_threshold self" "percentile_threshold self \<le> 100"
      and "\<forall>v \<in> set col. v = PyNone \<or> num_of v \<noteq> None"
      and "pl_quantile (3 / 4) col = Inr (Some q3)"
      and "pl_quantile (1 / 4) col = Inr (Some q1)"
  shows "detect_numeric_outliers pl_quantile self df column =
     Inr \<lparr>schema = [(column, dtype_of df column), (''method'', pl_String), (''direction'', pl_String)],
          rows = map (iqr_row column q1 q3) (filter (iqr_flag q1 q3) col)\<rparr>"
proof -
  note l = percentile_levels [OF assms(4,5)]
  from pl_quantile_numeric [OF l(3,4) assms(6)] obtain up where
    u: "pl_quantile (as_double (1 - as_double (percentile_threshold self / 100))) col = Inr up" ..
  from pl_quantile_numeric [OF l(1,2) assms(6)] obtain lp where
    lo: "pl_quantile (as_double (percentile_threshold self / 100)) col = Inr lp" ..
  from assms(1,2,3) u lo assms(7,8) show ?thesis by (rule detect_numeric_outliers_eq)
qed

text \<open>
  Claim C2, as the code has it. Take a column that is not named \<open>method\<close> or \<open>direction\<close>,
  whose non-null values are numbers and which has at least one, and a percentile threshold
  within 0 and 100. With \<open>q1\<close> the 25th and \<open>q3\<close> the 75th percentile (polars' quantile),
  \<^verbatim>\<open>_detect_numeric_outliers\<close> returns; the flagged values are, in row order, exactly the
  numbers \<open>x\<close> of the column with \<open>x > q3 + 1.5 * (q3 - q1)\<close> or \<open>x < q1 - 1.5 * (q3 - q1)\<close>,
  bounds and comparisons in floats (an integer is compared as its nearest double); every
  returned row has the method IQR, and the direction above when its value is over the upper
  bound and below otherwise.
\<close>

theorem numeric_outliers_iqr:
  assumes "get_column df column = Inr col"
      and "column \<noteq> ''method''" "column \<noteq> ''direction''"
      and "0 \<le> percentile_threshold self" "percentile_threshold self \<le> 100"
      and "\<forall>v \<in> set col. v = PyNone \<or> num_of v \<noteq> None"
      and "\<exists>v \<in> set col. v \<noteq> PyNone"
  shows "\<exists>q1 q3 outliers.
       pl_quantile (1 / 4) col = Inr (Some q1)
     \<and> pl_quantile (3 / 4) col = Inr (Some q3)
     \<and> detect_numeric_outliers pl_quantile self df column = Inr outliers
     \<and> map (\<lambda>r. cell r column) (rows outliers) =
         filter (\<lambda>v. \<exists>x. num_of v = Some x
                      \<and> (f64_lt (iqr_upper q1 q3) (Finite x) \<or> f64_lt (Finite x) (iqr_lower q1 q3))) col
     \<and> (\<forall>v x. num_of v = Some x \<and> v \<in> set col \<longrightarrow>
           (v \<in> (\<lambda>r. cell r column) ` set (rows outliers) \<longleftrightarrow>
              f64_lt (iqr_upper q1 q3) (Finite x) \<or> f64_lt (Finite x) (iqr_lower q1 q3)))
     \<and> (\<forall>r \<in> set (rows outliers). \<exists>x. num_of (cell r column) = Some x
           \<and> cell r ''method'' = PyStr ''IQR''
           \<and> cell r ''direction'' =
               PyStr (if f64_lt (iqr_upper q1 q3) (Finite x) then ''above'' else ''below''))"
proof -
  from pl_quantile_Some [OF _ _ assms(6,7), of "1 / 4"] obtain q1 where
    q1: "pl_quantile (1 / 4) col = Inr (Some q1)" by auto
  from pl_quantile_Some [OF _ _ assms(6,7), of "3 / 4"] obtain q3 where
    q3: "pl_quantile (3 / 4) col = Inr (Some q3)" by auto
  let ?outs = "\<lparr>schema = [(column, dtype_of df column), (''method'', pl_String), (''direction'', pl_String)],
          rows = map (iqr_row column q1 q3) (filter (iqr_flag q1 q3) col)\<rparr>"
  have r: "detect_numeric_outliers pl_quantile self df column = Inr ?outs"
    using assms(1-6) q3 q1 by (rule detect_numeric_outliers_pl)
  have flag: "iqr_flag q1 q3 = (\<lambda>v. \<exists>x. num_of v = Some x
        \<and> (f64_lt (iqr_upper q1 q3) (Finite x) \<or> f64_lt (Finite x) (iqr_lower q1 q3)))"
    by (auto simp: fun_eq_iff iqr_flag_def split: option.splits)
  have cv: "cell (iqr_row column q1 q3 v) column = v" for v
    by (simp add: iqr_row_def cell_def)
  have m: "map (\<lambda>r. cell r column) (rows ?outs) = filter (iqr_flag q1 q3) col"
    by (simp add: comp_def cv)
  have "(\<lambda>r. cell r column) ` set (rows ?outs) = set (map (\<lambda>r. cell r column) (rows ?outs))"
    by (simp only: set_map)
  also have "\<dots> = {v \<in> set col. iqr_flag q1 q3 v}"
    unfolding m by simp
  finally have s: "(\<lambda>r. cell r column) ` set (rows ?outs) = {v \<in> set col. iqr_flag q1 q3 v}" .
  have a: "\<forall>v x. num_of v = Some x \<and> v \<in> set col \<longrightarrow>
           (v \<in> (\<lambda>r. cell r column) ` set (rows ?outs) \<longleftrightarrow>
              f64_lt (iqr_upper q1 q3) (Finite x) \<or> f64_lt (Finite x) (iqr_lower q1 q3))"
    unfolding s by (auto simp: iqr_flag_def)
  have d: "\<forall>r \<in> set (rows ?outs). \<exists>x. num_of (cell r column) = Some x
           \<and> cell r ''method'' = PyStr ''IQR''
           \<and> cell r ''direction'' =
               PyStr (if f64_lt (iqr_upper q1 q3) (Finite x) then ''above'' else ''below'')"
    using assms(2,3)
    by (auto simp: iqr_flag_def iqr_row_def cell_def col_gt_def split: option.splits)
  from q1 q3 r m a d show ?thesis unfolding flag by blast
qed

text \<open>
  Claim C6, as the code has it. Two configurations that differ only in the percentile
  threshold, both thresholds within 0 and 100, give the same outcome of numeric outlier
  detection (with polars' quantile): the percentile bounds are computed and never read.
\<close>

theorem percentile_threshold_unused:
  assumes "0 \<le> percentile_threshold self" "percentile_threshold self \<le> 100"
      and "0 \<le> t" "t \<le> 100"
  shows "detect_numeric_outliers pl_quantile (self\<lparr>percentile_threshold := t\<rparr>) df column
       = detect_numeric_outliers pl_quantile self df column"
proof (cases "get_column df column")
  case (Inl e)
  then show ?thesis by (simp add: detect_numeric_outliers_def)
next
  case (Inr col)
  note ls = percentile_levels [OF assms(1,2)] and lt = percentile_levels [OF assms(3,4)]
  show ?thesis
  proof (cases "list_ex (\<lambda>v. v \<noteq> PyNone \<and> num_of v = None) col")
    case True
    then have "pl_quantile q col = Inl InvalidOperationError" if "0 \<le> q" "q \<le> 1" for q
      using that by (simp add: pl_quantile_def)
    with ls lt Inr show ?thesis by (simp add: detect_numeric_outliers_def)
  next
    case False
    then have n: "\<forall>v \<in> set col. v = PyNone \<or> num_of v \<noteq> None"
      by (auto simp: list_ex_iff)
    from pl_quantile_numeric [OF ls(3,4) n] pl_quantile_numeric [OF ls(1,2) n]
      pl_quantile_numeric [OF lt(3,4) n] pl_quantile_numeric [OF lt(1,2) n]
    obtain a b a' b' where
      "pl_quantile (as_double (1 - as_double (percentile_threshold self / 100))) col = Inr a"
      "pl_quantile (as_double (percentile_threshold self / 100)) col = Inr b"
      "pl_quantile (as_double (1 - as_double (t / 100))) col = Inr a'"
      "pl_quantile (as_double (t / 100)) col = Inr b'"
      by blast
    then show ?thesis using Inr by (rule detect_numeric_outliers_percentile_unused)
  qed
qed

lemmas float_eval = as_double_quarters f64_round_quarters f64_sub_def iqr_upper_def iqr_lower_def
  iqr_flag_def iqr_row_def col_gt_def col_lt_def

lemmas quantile_eval = pl_quantile_def List.map_filter_def Let_def as_double_quarters

theorem numeric_outliers_iqr_witness:
  "get_column (column_frame ''premium'' pl_Int64
        [PyInt 5, PyNone, PyInt 6, PyInt 7, PyInt 1000, PyInt (- 50)]) ''premium''
      = Inr [PyInt 5, PyNone, PyInt 6, PyInt 7, PyInt 1000, PyInt (- 50)]
   \<and> 0 \<le> percentile_threshold default_detector \<and> percentile_threshold default_detector \<le> 100
   \<and> pl_quantile (1 / 4) [PyInt 5, PyNone, PyInt 6, PyInt 7, PyInt 1000, PyInt (- 50)] = Inr (Some 5)
   \<and> pl_quantile (3 / 4) [PyInt 5, PyNone, PyInt 6, PyInt 7, PyInt 1000, PyInt (- 50)] = Inr (Some 7)
   \<and> iqr_upper 5 7 = Finite 10 \<and> iqr_lower 5 7 = Finite 2
   \<and> (\<exists>outliers. detect_numeric_outliers pl_quantile default_detector
          (column_frame ''premium'' pl_Int64
             [PyInt 5, PyNone, PyInt 6, PyInt 7, PyInt 1000, PyInt (- 50)]) ''premium'' = Inr outliers
        \<and> map (\<lambda>r. cell r ''premium'') (rows outliers) = [PyInt 1000, PyInt (- 50)]
        \<and> map (\<lambda>r. cell r ''direction'') (rows outliers) = [PyStr ''above'', PyStr ''below''])"
proof -
  let ?col = "[PyInt 5, PyNone, PyInt 6, PyInt 7, PyInt 1000, PyInt (- 50)]"
  let ?df = "column_frame ''premium'' pl_Int64 ?col"
  have c: "get_column ?df ''premium'' = Inr ?col"
    by (simp add: get_column_def column_frame_def cell_def columns_def)
  have n: "''premium'' \<noteq> ''method''" "''premium'' \<noteq> ''direction''" by simp_all
  have t: "0 \<le> percentile_threshold default_detector" "percentile_threshold default_detector \<le> 100"
    by (simp_all add: default_detector_def)
  have num: "\<forall>v \<in> set ?col. v = PyNone \<or> num_of v \<noteq> None" by simp
  have nn: "\<exists>v \<in> set ?col. v \<noteq> PyNone" by simp
  have q1: "pl_quantile (1 / 4) ?col = Inr (Some 5)" by (simp add: quantile_eval)
  have q3: "pl_quantile (3 / 4) ?col = Inr (Some 7)" by (simp add: quantile_eval)
  have u: "iqr_upper 5 7 = Finite 10" by (simp add: float_eval)
  have l: "iqr_lower 5 7 = Finite 2" by (simp add: float_eval)
  from numeric_outliers_iqr [OF c n t num nn]
  obtain a b outliers where
    qa: "pl_quantile (1 / 4) ?col = Inr (Some a)" and qb: "pl_quantile (3 / 4) ?col = Inr (Some b)"
    and r: "detect_numeric_outliers pl_quantile default_detector ?df ''premium'' = Inr outliers"
    and m: "map (\<lambda>r. cell r ''premium'') (rows outliers) =
         filter (\<lambda>v. \<exists>x. num_of v = Some x
                      \<and> (f64_lt (iqr_upper a b) (Finite x) \<or> f64_lt (Finite x) (iqr_lower a b))) ?col"
    and d: "\<forall>r \<in> set (rows outliers). \<exists>x. num_of (cell r ''premium'') = Some x
           \<and> cell r ''method'' = PyStr ''IQR''
           \<and> cell r ''direction'' =
               PyStr (if f64_lt (iqr_upper a b) (Finite x) then ''above'' else ''below'')"
    by (auto simp only: default_detector_def)
  from qa q1 have a: "a = 5" by simp
  from qb q3 have b: "b = 7" by simp
  from m have m': "map (\<lambda>r. cell r ''premium'') (rows outliers) = [PyInt 1000, PyInt (- 50)]"
    unfolding a b u l by (simp add: as_double_quarters)
  then obtain r1 r2 where o: "rows outliers = [r1, r2]"
    "cell r1 ''premium'' = PyInt 1000" "cell r2 ''premium'' = PyInt (- 50)"
    by (auto simp: map_eq_Cons_conv)
  from d o have "cell r1 ''direction'' = PyStr ''above''" "cell r2 ''direction'' = PyStr ''below''"
    unfolding a b u l by (auto simp: as_double_quarters)
  with o have dd: "map (\<lambda>r. cell r ''direction'') (rows outliers) = [PyStr ''above'', PyStr ''below'']"
    by simp
  show ?thesis
    by (intro conjI exI [of _ outliers]) (fact c t q1 q3 u l r m' dd)+
qed

text \<open>
  Claim C2 as stated fails when the percentile threshold is outside 0 to 100: the column
  1, 2, 3, 50 has the quartiles 2 and 3 and the upper bound 4.5, so 50 should be returned, but
  with the threshold 200 the quantile level \<open>1 - 200 / 100\<close> is negative, polars refuses it,
  and the function raises.
\<close>

theorem numeric_outliers_threshold_counterexample:
  "pl_quantile (1 / 4) [PyInt 1, PyInt 2, PyInt 3, PyInt 50] = Inr (Some 2)
   \<and> pl_quantile (3 / 4) [PyInt 1, PyInt 2, PyInt 3, PyInt 50] = Inr (Some 3)
   \<and> iqr_upper 2 3 = Finite (9 / 2)
   \<and> f64_lt (iqr_upper 2 3) (Finite 50)
   \<and> detect_numeric_outliers pl_quantile (default_detector\<lparr>percentile_threshold := 200\<rparr>)
        (column_frame ''amount'' pl_Int64 [PyInt 1, PyInt 2, PyInt 3, PyInt 50]) ''amount''
      = Inl ComputeError"
  by (simp add: quantile_eval float_eval detect_numeric_outliers_def get_column_def
      column_frame_def columns_def cell_def default_detector_def)

lemma premium_outliers:
  "detect_numeric_outliers pl_quantile default_detector
        (column_frame ''premium'' pl_Int64 [PyInt 5, PyInt 6, PyInt 7, PyInt 1000]) ''premium''
      = Inr \<lparr>schema = [(''premium'', pl_Int64), (''method'', pl_String), (''direction'', pl_String)],
             rows = [[(''premium'', PyInt 1000), (''method'', PyStr ''IQR''),
                      (''direction'', PyStr ''above'')]]\<rparr>"
proof -
  let ?col = "[PyInt 5, PyInt 6, PyInt 7, PyInt 1000]"
  let ?df = "column_frame ''premium'' pl_Int64 ?col"
  have c: "get_column ?df ''premium'' = Inr ?col"
    by (simp add: get_column_def column_frame_def cell_def columns_def)
  have n: "''premium'' \<noteq> ''method''" "''premium'' \<noteq> ''direction''" by simp_all
  have t: "0 \<le> percentile_threshold default_detector" "percentile_threshold default_detector \<le> 100"
    by (simp_all add: default_detector_def)
  have num: "\<forall>v \<in> set ?col. v = PyNone \<or> num_of v \<noteq> None" by simp
  have q1: "pl_quantile (1 / 4) ?col = Inr (Some 6)" by (simp add: quantile_eval)
  have q3: "pl_quantile (3 / 4) ?col = Inr (Some 7)" by (simp add: quantile_eval)
  show ?thesis
    unfolding detect_numeric_outliers_pl [OF c n t num q3 q1]
    by (simp add: float_eval column_frame_def dtype_of_def)
qed

theorem percentile_threshold_unused_witness:
  "0 \<le> percentile_threshold default_detector \<and> percentile_threshold default_detector \<le> 100
   \<and> (0::rat) \<le> 35 \<and> (35::rat) \<le> 100
   \<and> detect_numeric_outliers pl_quantile (default_detector\<lparr>percentile_threshold := 35\<rparr>)
        (column_frame ''premium'' pl_Int64 [PyInt 5, PyInt 6, PyInt 7, PyInt 1000]) ''premium''
      = Inr \<lparr>schema = [(''premium'', pl_Int64), (''method'', pl_String), (''direction'', pl_String)],
             rows = [[(''premium'', PyInt 1000), (''method'', PyStr ''IQR''),
                      (''direction'', PyStr ''above'')]]\<rparr>
   \<and> detect_numeric_outliers pl_quantile default_detector
        (column_frame ''premium'' pl_Int64 [PyInt 5, PyInt 6, PyInt 7, PyInt 1000]) ''premium''
      = Inr \<lparr>schema = [(''premium'', pl_Int64), (''method'', pl_String), (''direction'', pl_String)],
             rows = [[(''premium'', PyInt 1000), (''method'', PyStr ''IQR''),
                      (''direction'', PyStr ''above'')]]\<rparr>"
proof -
  let ?df = "column_frame ''premium'' pl_Int64 [PyInt 5, PyInt 6, PyInt 7, PyInt 1000]"
  have h: "0 \<le> percentile_threshold default_detector" "percentile_threshold default_detector \<le> 100"
    "(0::rat) \<le> 35" "(35::rat) \<le> 100"
    by (simp_all add: default_detector_def)
  from percentile_threshold_unused [OF h, of ?df "''premium''"] premium_outliers h
  show ?thesis by simp
qed

text \<open>
  Claim C6 as stated fails for a threshold outside 0 to 100: the percentile level
  \<open>1 - 150 / 100\<close> is negative, polars refuses it, and the detection raises where the default
  configuration flags the value 1000.
\<close>

theorem percentile_threshold_out_of_range_counterexample:
  "detect_numeric_outliers pl_quantile default_detector
        (column_frame ''premium'' pl_Int64 [PyInt 5, PyInt 6, PyInt 7, PyInt 1000]) ''premium''
      = Inr \<lparr>schema = [(''premium'', pl_Int64), (''method'', pl_String), (''direction'', pl_String)],
             rows = [[(''premium'', PyInt 1000), (''method'', PyStr ''IQR''),
                      (''direction'', PyStr ''above'')]]\<rparr>
   \<and> detect_numeric_outliers pl_quantile (default_detector\<lparr>percentile_threshold := 150\<rparr>)
        (column_frame ''premium'' pl_Int64 [PyInt 5, PyInt 6, PyInt 7, PyInt 1000]) ''premium''
      = Inl ComputeError"
proof -
  have "detect_numeric_outliers pl_quantile (default_detector\<lparr>percentile_threshold := 150\<rparr>)
        (column_frame ''premium'' pl_Int64 [PyInt 5, PyInt 6, PyInt 7, PyInt 1000]) ''premium''
      = Inl ComputeError"
    by (simp add: quantile_eval float_eval detect_numeric_outliers_def get_column_def
        column_frame_def columns_def cell_def default_detector_def)
  with premium_outliers show ?thesis by simp
qed

subsection \<open>Rare categories\<close>

lemma get_column_eq:
  "get_column df column = Inr col \<longleftrightarrow>
     column \<in> set (columns df) \<and> col = map (\<lambda>r. cell r column) (rows df)"
  by (auto simp: get_column_def)

lemma remdups_map_singleton: "remdups (map (\<lambda>v. [v]) xs) = map (\<lambda>v. [v]) (remdups xs)"
  by (induction xs) auto

lemma count_list_map_singleton: "count_list (map (\<lambda>v. [v]) xs) [v] = count_list xs v"
  by (induction xs) auto

lemma group_by_count_column:
  assumes "column \<noteq> ''count''"
  shows "group_by_count [column]
           \<lparr>schema = [(column, t)], rows = map (\<lambda>v. [(column, v)]) col\<rparr>
       = Inr \<lparr>schema = [(column, t), (''count'', pl_UInt32)],
              rows = map (\<lambda>v. [(column, v), (''count'', PyInt (int (count_list col v)))])
                       (remdups col)\<rparr>"
proof -
  have k: "(\<lambda>x. key_tuple [column] [(column, x)]) = (\<lambda>v. [v])"
    by (simp add: key_tuple_def cell_def fun_eq_iff)
  show ?thesis
    using assms
    by (simp add: group_by_count_def k Let_def remdups_map_singleton comp_def
        count_list_map_singleton dtype_of_def)
qed

lemma detect_categorical_outliers_eq:
  assumes "get_column df column = Inr col"
      and "column \<noteq> ''count''" "column \<noteq> ''percentage''"
      and "100 * length (rows df) < 2 ^ 32"
  shows "detect_categorical_outliers self df column =
     \<lparr>schema = [(column, dtype_of df column), (''count'', pl_UInt32), (''percentage'', pl_Float64)],
      rows = map (category_row column df col)
               (filter (\<lambda>v. rows_percentage df col v < rare_category_threshold self) (remdups col))\<rparr>"
proof -
  from assms(1) have c: "column \<in> set (columns df)" and col: "col = map (\<lambda>r. cell r column) (rows df)"
    by (simp_all add: get_column_eq)
  have sel: "select [column] df =
      Inr \<lparr>schema = [(column, dtype_of df column)], rows = map (\<lambda>v. [(column, v)]) col\<rparr>"
    using c by (simp add: select_def col comp_def)
  note g = group_by_count_column [OF assms(2), of "dtype_of df column" col]
  have len: "length col = length (rows df)" by (simp add: col)
  have m: "(int (count_list col v) * 100) mod 4294967296 = int (100 * count_list col v)" for v
  proof -
    have "count_list col v \<le> length (rows df)"
      using count_le_length [of col v] len by simp
    with assms(4) have "count_list col v * 100 < 2 ^ 32" by simp
    then have "int (count_list col v * 100) < 4294967296" by simp
    then show ?thesis by (simp add: mult.commute)
  qed
  have p: "percentage_of (length (rows df)) [(column, v), (''count'', PyInt (int (count_list col v)))]
      = PyFloat (rows_percentage df col v)" for v
    using assms(2)
    by (simp add: percentage_of_def cell_def m rows_percentage_def del: of_nat_mult)
  have w: "with_column ''percentage'' pl_Float64 (percentage_of (length (rows df)))
        \<lparr>schema = [(column, dtype_of df column), (''count'', pl_UInt32)],
         rows = map (\<lambda>v. [(column, v), (''count'', PyInt (int (count_list col v)))]) (remdups col)\<rparr>
      = \<lparr>schema = [(column, dtype_of df column), (''count'', pl_UInt32), (''percentage'', pl_Float64)],
         rows = map (category_row column df col) (remdups col)\<rparr>"
    using assms(3) by (simp add: with_column_def p comp_def category_row_def)
  have b: "below_threshold th (category_row column df col v) = (rows_percentage df col v < th)" for th v
    using assms(3) by (simp add: below_threshold_def category_row_def cell_def)
  show ?thesis
    by (simp add: detect_categorical_outliers_def Let_def sel g w filter_rows_def
        filter_map comp_def b)
qed

text \<open>
  Claim C4, as the code has it. Take a column that is not named \<open>count\<close> or \<open>percentage\<close>,
  of a frame of fewer than \<open>2^32 / 100\<close> rows (so that 100 times a count fits the 32-bit
  count column). The categories returned by \<^verbatim>\<open>_detect_categorical_outliers\<close> are exactly the
  values of the column, null counting as a value, whose percentage
  \<open>100 * count / number of rows of the frame\<close> (null rows included, the quotient a float) is
  strictly below \<open>rare_category_threshold\<close>; each is returned once, with its count and that
  percentage stored.
\<close>

theorem rare_categories:
  assumes "get_column df column = Inr col"
      and "column \<noteq> ''count''" "column \<noteq> ''percentage''"
      and "100 * length (rows df) < 2 ^ 32"
  shows "(\<lambda>r. cell r column) ` set (rows (detect_categorical_outliers self df column))
        = {v \<in> set col. rows_percentage df col v < rare_category_threshold self}
    \<and> distinct (map (\<lambda>r. cell r column) (rows (detect_categorical_outliers self df column)))
    \<and> (\<forall>r \<in> set (rows (detect_categorical_outliers self df column)).
          cell r ''count'' = PyInt (int (count_list col (cell r column)))
          \<and> cell r ''percentage'' = PyFloat (rows_percentage df col (cell r column))
          \<and> rows_percentage df col (cell r column) < rare_category_threshold self)"
proof -
  let ?P = "\<lambda>v. rows_percentage df col v < rare_category_threshold self"
  let ?res = "detect_categorical_outliers self df column"
  have r: "rows ?res = map (category_row column df col) (filter ?P (remdups col))"
    by (simp add: detect_categorical_outliers_eq [OF assms])
  have cv: "cell (category_row column df col v) column = v" for v
    by (simp add: category_row_def cell_def)
  have c: "map (\<lambda>r. cell r column) (rows ?res) = filter ?P (remdups col)"
    unfolding r by (simp add: comp_def cv)
  show ?thesis
  proof (intro conjI)
    have "(\<lambda>r. cell r column) ` set (rows ?res) = set (map (\<lambda>r. cell r column) (rows ?res))"
      by (simp only: set_map)
    also have "\<dots> = {v \<in> set col. ?P v}" unfolding c by simp
    finally show "(\<lambda>r. cell r column) ` set (rows ?res) = {v \<in> set col. ?P v}" .
    show "distinct (map (\<lambda>r. cell r column) (rows ?res))"
      unfolding c by simp
    show "\<forall>r \<in> set (rows ?res).
          cell r ''count'' = PyInt (int (count_list col (cell r column)))
          \<and> cell r ''percentage'' = PyFloat (rows_percentage df col (cell r column))
          \<and> rows_percentage df col (cell r column) < rare_category_threshold self"
      unfolding r using assms(2,3) by (auto simp: category_row_def cell_def)
  qed
qed

theorem rare_categories_witness:
  "get_column (column_frame ''region'' pl_String
        [PyStr ''north'', PyStr ''north'', PyStr ''south'', PyNone]) ''region''
      = Inr [PyStr ''north'', PyStr ''north'', PyStr ''south'', PyNone]
   \<and> ''region'' \<noteq> ''count'' \<and> ''region'' \<noteq> ''percentage''
   \<and> 100 * length (rows (column_frame ''region'' pl_String
         [PyStr ''north'', PyStr ''north'', PyStr ''south'', PyNone])) < (2::nat) ^ 32
   \<and> (\<lambda>r. cell r ''region'') `
        set (rows (detect_categorical_outliers (default_detector\<lparr>rare_category_threshold := 30\<rparr>)
         (column_frame ''region'' pl_String
            [PyStr ''north'', PyStr ''north'', PyStr ''south'', PyNone]) ''region''))
       = {PyStr ''south'', PyNone}"
proof -
  let ?col = "[PyStr ''north'', PyStr ''north'', PyStr ''south'', PyNone]"
  let ?df = "column_frame ''region'' pl_String ?col"
  let ?cfg = "default_detector\<lparr>rare_category_threshold := 30\<rparr>"
  have c: "get_column ?df ''region'' = Inr ?col"
    by (simp add: get_column_def column_frame_def cell_def columns_def)
  have nm: "''region'' \<noteq> ''count''" "''region'' \<noteq> ''percentage''" by simp_all
  have n: "100 * length (rows ?df) < (2::nat) ^ 32"
    by (simp add: column_frame_def)
  have "{v \<in> set ?col. rows_percentage ?df ?col v < rare_category_threshold ?cfg}
      = {PyStr ''south'', PyNone}"
    by (auto simp: rows_percentage_def column_frame_def default_detector_def as_double_quarters)
  with rare_categories [OF c nm n, of ?cfg] c nm n show ?thesis by simp
qed

text \<open>
  Claim C4 as stated fails on a column with nulls. Of four rows two are null; \<open>north\<close>
  occurs once. Over the two non-null rows its percentage is 50, not below the threshold 50,
  yet the code divides by all four rows, stores 25 and returns it.
\<close>

theorem rare_categories_null_rows_counterexample:
  "detect_categorical_outliers (default_detector\<lparr>rare_category_threshold := 50\<rparr>)
      (column_frame ''region'' pl_String [PyStr ''north'', PyStr ''south'', PyNone, PyNone]) ''region''
     = \<lparr>schema = [(''region'', pl_String), (''count'', pl_UInt32), (''percentage'', pl_Float64)],
        rows = [[(''region'', PyStr ''north''), (''count'', PyInt 1), (''percentage'', PyFloat 25)],
                [(''region'', PyStr ''south''), (''count'', PyInt 1), (''percentage'', PyFloat 25)]]\<rparr>
   \<and> non_null_percentage [PyStr ''north'', PyStr ''south'', PyNone, PyNone] (PyStr ''north'') = 50
   \<and> \<not> non_null_percentage [PyStr ''north'', PyStr ''south'', PyNone, PyNone] (PyStr ''north'')
         < rare_category_threshold (default_detector\<lparr>rare_category_threshold := 50\<rparr>)"
proof -
  let ?col = "[PyStr ''north'', PyStr ''south'', PyNone, PyNone]"
  let ?df = "column_frame ''region'' pl_String ?col"
  have c: "get_column ?df ''region'' = Inr ?col"
    by (simp add: get_column_def column_frame_def cell_def columns_def)
  have n: "100 * length (rows ?df) < (2::nat) ^ 32"
    by (simp add: column_frame_def)
  have nm: "''region'' \<noteq> ''count''" "''region'' \<noteq> ''percentage''" by simp_all
  have p: "non_null_percentage ?col (PyStr ''north'') = 50"
    by (simp add: non_null_percentage_def as_double_quarters)
  show ?thesis
    unfolding detect_categorical_outliers_eq [OF c nm n] p
    by (simp add: rows_percentage_def category_row_def column_frame_def dtype_of_def
        default_detector_def as_double_quarters)
qed

subsection \<open>Dates, classification and the table scan\<close>

lemma detect_numeric_outliers_non_numeric:
  assumes "get_column df column = Inr col"
      and "0 \<le> percentile_threshold self" "percentile_threshold self \<le> 100"
      and "list_ex (\<lambda>v. v \<noteq> PyNone \<and> num_of v = None) col"
  shows "detect_numeric_outliers pl_quantile self df column = Inl InvalidOperationError"
proof -
  note l = percentile_levels [OF assms(2,3)]
  have "pl_quantile (as_double (1 - as_double (percentile_threshold self / 100))) col
      = Inl InvalidOperationError"
    using l(3,4) assms(4) by (simp add: pl_quantile_def)
  then show ?thesis using assms(1) by (simp add: detect_numeric_outliers_def)
qed

lemmas frame_eval = get_column_def column_frame_def columns_def cell_def dtype_of_def
  with_column_def drop_column_def cast_cell_def wrap_int64_def in_int64_def

text \<open>
  Claim C5. The conversion of \<^verbatim>\<open>_detect_date_outliers\<close> to the epoch and back should give
  the original dates. It does not: the cast gives days (for a date) or microseconds (for a
  datetime), and \<^verbatim>\<open>from_epoch\<close> reads them as seconds. The flagged date 30000 days after the
  epoch comes back as the datetime 30000 seconds after it, and the flagged datetime
  \<open>8 * 10^12\<close> microseconds after the epoch as \<open>8 * 10^18\<close> microseconds after it.
\<close>

theorem date_outliers_lose_the_date:
  "detect_date_outliers pl_quantile default_detector
      (column_frame ''start'' pl_Date [PyDate 18262, PyDate 18263, PyDate 18264, PyDate 30000]) ''start''
     = Inr \<lparr>schema = [(''method'', pl_String), (''direction'', pl_String), (''start'', pl_Datetime)],
            rows = [[(''method'', PyStr ''IQR''), (''direction'', PyStr ''above''),
                     (''start'', PyDatetime 30000000000)]]\<rparr>
   \<and> detect_date_outliers pl_quantile default_detector
      (column_frame ''issued'' pl_Datetime
         [PyDatetime 1000000000000, PyDatetime 1100000000000,
          PyDatetime 1200000000000, PyDatetime 8000000000000]) ''issued''
     = Inr \<lparr>schema = [(''method'', pl_String), (''direction'', pl_String), (''issued'', pl_Datetime)],
            rows = [[(''method'', PyStr ''IQR''), (''direction'', PyStr ''above''),
                     (''issued'', PyDatetime 8000000000000000000)]]\<rparr>"
proof (intro conjI)
  have t: "0 \<le> percentile_threshold default_detector" "percentile_threshold default_detector \<le> 100"
    by (simp_all add: default_detector_def)
  have n: "''_temp_ts'' \<noteq> ''method''" "''_temp_ts'' \<noteq> ''direction''" by simp_all
  show "detect_date_outliers pl_quantile default_detector
      (column_frame ''start'' pl_Date [PyDate 18262, PyDate 18263, PyDate 18264, PyDate 30000]) ''start''
     = Inr \<lparr>schema = [(''method'', pl_String), (''direction'', pl_String), (''start'', pl_Datetime)],
            rows = [[(''method'', PyStr ''IQR''), (''direction'', PyStr ''above''),
                     (''start'', PyDatetime 30000000000)]]\<rparr>"
  proof -
    let ?ts = "[PyInt 18262, PyInt 18263, PyInt 18264, PyInt 30000]"
    let ?df = "column_frame ''start'' pl_Date [PyDate 18262, PyDate 18263, PyDate 18264, PyDate 30000]"
    let ?w = "with_column ''_temp_ts'' pl_Int64 (\<lambda>r. cast_cell (cell r ''start'')) ?df"
    have c: "get_column ?w ''_temp_ts'' = Inr ?ts" by (simp add: frame_eval)
    have num: "\<forall>v \<in> set ?ts. v = PyNone \<or> num_of v \<noteq> None" by simp
    have q1: "pl_quantile (1 / 4) ?ts = Inr (Some 18263)" by (simp add: quantile_eval)
    have q3: "pl_quantile (3 / 4) ?ts = Inr (Some 18264)" by (simp add: quantile_eval)
    note d = detect_numeric_outliers_pl [OF c n t num q3 q1, simplified frame_eval, simplified]
    show ?thesis
      by (simp add: detect_date_outliers_def Let_def frame_eval d)
         (simp add: float_eval wrap_int64_def)
  qed
  show "detect_date_outliers pl_quantile default_detector
      (column_frame ''issued'' pl_Datetime
         [PyDatetime 1000000000000, PyDatetime 1100000000000,
          PyDatetime 1200000000000, PyDatetime 8000000000000]) ''issued''
     = Inr \<lparr>schema = [(''method'', pl_String), (''direction'', pl_String), (''issued'', pl_Datetime)],
            rows = [[(''method'', PyStr ''IQR''), (''direction'', PyStr ''above''),
                     (''issued'', PyDatetime 8000000000000000000)]]\<rparr>"
  proof -
    let ?ts = "[PyInt 1000000000000, PyInt 1100000000000, PyInt 1200000000000, PyInt 8000000000000]"
    let ?df = "column_frame ''issued'' pl_Datetime
         [PyDatetime 1000000000000, PyDatetime 1100000000000,
          PyDatetime 1200000000000, PyDatetime 8000000000000]"
    let ?w = "with_column ''_temp_ts'' pl_Int64 (\<lambda>r. cast_cell (cell r ''issued'')) ?df"
    have c: "get_column ?w ''_temp_ts'' = Inr ?ts" by (simp add: frame_eval)
    have num: "\<forall>v \<in> set ?ts. v = PyNone \<or> num_of v \<noteq> None" by simp
    have q1: "pl_quantile (1 / 4) ?ts = Inr (Some 1100000000000)" by (simp add: quantile_eval)
    have q3: "pl_quantile (3 / 4) ?ts = Inr (Some 1200000000000)" by (simp add: quantile_eval)
    note d = detect_numeric_outliers_pl [OF c n t num q3 q1, simplified frame_eval, simplified]
    show ?thesis
      by (simp add: detect_date_outliers_def Let_def frame_eval d)
         (simp add: float_eval wrap_int64_def)
  qed
qed

lemmas scan_defs = detect_column_def isinstance_def issubclass_def determine_column_type_def
  column_outcome_def

lemma premium_with_null_outliers:
  "detect_numeric_outliers pl_quantile default_detector
      (column_frame ''premium'' pl_Int64 [PyNone, PyInt 5, PyInt 6, PyInt 7, PyInt 1000]) ''premium''
     = Inr \<lparr>schema = [(''premium'', pl_Int64), (''method'', pl_String), (''direction'', pl_String)],
            rows = [[(''premium'', PyInt 1000), (''method'', PyStr ''IQR''),
                     (''direction'', PyStr ''above'')]]\<rparr>"
proof -
  let ?col = "[PyNone, PyInt 5, PyInt 6, PyInt 7, PyInt 1000]"
  let ?df = "column_frame ''premium'' pl_Int64 ?col"
  have c: "get_column ?df ''premium'' = Inr ?col" by (simp add: frame_eval)
  have n: "''premium'' \<noteq> ''method''" "''premium'' \<noteq> ''direction''" by simp_all
  have t: "0 \<le> percentile_threshold default_detector" "percentile_threshold default_detector \<le> 100"
    by (simp_all add: default_detector_def)
  have num: "\<forall>v \<in> set ?col. v = PyNone \<or> num_of v \<noteq> None" by simp
  have q1: "pl_quantile (1 / 4) ?col = Inr (Some 6)" by (simp add: quantile_eval)
  have q3: "pl_quantile (3 / 4) ?col = Inr (Some 7)" by (simp add: quantile_eval)
  show ?thesis
    unfolding detect_numeric_outliers_pl [OF c n t num q3 q1]
    by (simp add: float_eval frame_eval)
qed

lemma no_rare_category:
  assumes "get_column df column = Inr col"
      and "column \<noteq> ''count''" "column \<noteq> ''percentage''"
      and "100 * length (rows df) < 2 ^ 32"
      and "\<forall>v \<in> set col. \<not> rows_percentage df col v < rare_category_threshold self"
  shows "detect_categorical_outliers self df column =
     \<lparr>schema = [(column, dtype_of df column), (''count'', pl_UInt32), (''percentage'', pl_Float64)],
      rows = []\<rparr>"
proof -
  have "filter (\<lambda>v. rows_percentage df col v < rare_category_threshold self) (remdups col) = []"
    using assms(5) by (simp add: filter_empty_conv)
  then show ?thesis by (simp add: detect_categorical_outliers_eq [OF assms(1-4)])
qed

text \<open>
  Claim C8. The classification should follow the first non-null value: integer or float
  numeric, date or time date, anything else categorical, and no non-null value an
  empty-column error. The code differs, in \<^verbatim>\<open>_determine_column_type\<close>: a column of dates is
  classified categorical (no value is an instance of a polars data type class) and a column
  of booleans numeric (\<^verbatim>\<open>bool\<close> is a subclass of \<^verbatim>\<open>int\<close>); and in \<^verbatim>\<open>detect_outliers\<close>, which
  tests the first value, null or not: a numeric column that starts with a null is treated as
  categorical (its outlier 1000, which the numeric method flags, is not found), and a column
  of nulls is treated as categorical where \<^verbatim>\<open>_determine_column_type\<close> raises.
\<close>

theorem classification_not_by_first_non_null:
  "determine_column_type default_detector
      (column_frame ''start'' pl_Date [PyNone, PyDate 18262]) ''start'' = Inr CATEGORICAL
   \<and> determine_column_type default_detector
      (column_frame ''active'' pl_Boolean [PyBool True, PyBool False]) ''active'' = Inr NUMERIC
   \<and> determine_column_type default_detector
      (column_frame ''premium'' pl_Int64 [PyNone, PyInt 5, PyInt 6, PyInt 7, PyInt 1000]) ''premium''
     = Inr NUMERIC
   \<and> detect_column pl_quantile default_detector
      (column_frame ''premium'' pl_Int64 [PyNone, PyInt 5, PyInt 6, PyInt 7, PyInt 1000]) ''premium''
     = Inr (Some \<lparr>schema = [(''premium'', pl_Int64), (''count'', pl_UInt32),
                              (''percentage'', pl_Float64)],
                    rows = []\<rparr>)
   \<and> detect_numeric_outliers pl_quantile default_detector
      (column_frame ''premium'' pl_Int64 [PyNone, PyInt 5, PyInt 6, PyInt 7, PyInt 1000]) ''premium''
     = Inr \<lparr>schema = [(''premium'', pl_Int64), (''method'', pl_String), (''direction'', pl_String)],
            rows = [[(''premium'', PyInt 1000), (''method'', PyStr ''IQR''),
                     (''direction'', PyStr ''above'')]]\<rparr>
   \<and> determine_column_type default_detector
      (column_frame ''note'' pl_String [PyNone, PyNone]) ''note'' = Inl (ValueError_column_empty ''note'')
   \<and> detect_column pl_quantile default_detector
      (column_frame ''note'' pl_String [PyNone, PyNone]) ''note''
     = Inr (Some \<lparr>schema = [(''note'', pl_String), (''count'', pl_UInt32),
                              (''percentage'', pl_Float64)],
                    rows = []\<rparr>)"
proof (intro conjI)
  show "detect_numeric_outliers pl_quantile default_detector
      (column_frame ''premium'' pl_Int64 [PyNone, PyInt 5, PyInt 6, PyInt 7, PyInt 1000]) ''premium''
     = Inr \<lparr>schema = [(''premium'', pl_Int64), (''method'', pl_String), (''direction'', pl_String)],
            rows = [[(''premium'', PyInt 1000), (''method'', PyStr ''IQR''),
                     (''direction'', PyStr ''above'')]]\<rparr>"
    by (rule premium_with_null_outliers)
  show "detect_column pl_quantile default_detector
      (column_frame ''premium'' pl_Int64 [PyNone, PyInt 5, PyInt 6, PyInt 7, PyInt 1000]) ''premium''
     = Inr (Some \<lparr>schema = [(''premium'', pl_Int64), (''count'', pl_UInt32),
                              (''percentage'', pl_Float64)],
                    rows = []\<rparr>)"
  proof -
    let ?col = "[PyNone, PyInt 5, PyInt 6, PyInt 7, PyInt 1000]"
    let ?df = "column_frame ''premium'' pl_Int64 ?col"
    have c: "get_column ?df ''premium'' = Inr ?col" by (simp add: frame_eval)
    have nm: "''premium'' \<noteq> ''count''" "''premium'' \<noteq> ''percentage''" by simp_all
    have n: "100 * length (rows ?df) < (2::nat) ^ 32" by (simp add: column_frame_def)
    have p: "\<forall>v \<in> set ?col. \<not> rows_percentage ?df ?col v < rare_category_threshold default_detector"
      by (simp add: rows_percentage_def column_frame_def default_detector_def as_double_quarters)
    show ?thesis
      by (simp add: scan_defs c no_rare_category [OF c nm n p]) (simp add: frame_eval)
  qed
  show "detect_column pl_quantile default_detector
      (column_frame ''note'' pl_String [PyNone, PyNone]) ''note''
     = Inr (Some \<lparr>schema = [(''note'', pl_String), (''count'', pl_UInt32),
                              (''percentage'', pl_Float64)],
                    rows = []\<rparr>)"
  proof -
    let ?col = "[PyNone, PyNone]"
    let ?df = "column_frame ''note'' pl_String ?col"
    have c: "get_column ?df ''note'' = Inr ?col" by (simp add: frame_eval)
    have nm: "''note'' \<noteq> ''count''" "''note'' \<noteq> ''percentage''" by simp_all
    have n: "100 * length (rows ?df) < (2::nat) ^ 32" by (simp add: column_frame_def)
    have p: "\<forall>v \<in> set ?col. \<not> rows_percentage ?df ?col v < rare_category_threshold default_detector"
      by (simp add: rows_percentage_def column_frame_def default_detector_def as_double_quarters)
    show ?thesis
      by (simp add: scan_defs c no_rare_category [OF c nm n p]) (simp add: frame_eval)
  qed
qed (simp_all add: scan_defs frame_eval)

lemma fold_results:
  "fold (\<lambda>column results. case h column of None \<Rightarrow> results | Some v \<Rightarrow> results(column \<mapsto> v)) cols m
     = (\<lambda>c. if c \<in> set cols then (case h c of None \<Rightarrow> m c | Some v \<Rightarrow> Some v) else m c)"
proof (induction cols arbitrary: m)
  case Nil
  then show ?case by simp
next
  case (Cons a cols)
  show ?case
    unfolding fold_simps Cons.IH
    by (auto simp: fun_eq_iff split: option.splits)
qed

lemma detect_outliers_eq:
  "detect_outliers quantile self df column =
     (if column \<in> set (columns df) then column_outcome quantile self df column else None)"
proof -
  have step: "(\<lambda>column results.
             case detect_column quantile self df column of
               Inl e \<Rightarrow> results
             | Inr None \<Rightarrow> results
             | Inr (Some outliers) \<Rightarrow>
                 if rows outliers \<noteq> [] then results(column \<mapsto> outliers) else results)
        = (\<lambda>column results. case column_outcome quantile self df column of
              None \<Rightarrow> results | Some v \<Rightarrow> results(column \<mapsto> v))"
    by (auto simp: fun_eq_iff column_outcome_def split: sum.splits option.splits)
  show ?thesis
    unfolding detect_outliers_def step fold_results
    by (simp split: option.splits)
qed

text \<open>
  Claim C9. \<^verbatim>\<open>detect_outliers\<close> always returns a mapping. What a column contributes depends
  on that column alone: its non-empty frame of outliers, and nothing when its processing
  raises, when it has no rows or when it has no outliers; a column whose processing raises
  takes nothing from the other columns. A frame without rows gives the empty mapping.
\<close>

theorem detect_outliers_isolates_columns:
  "(\<forall>column. detect_outliers quantile self df column =
       (if column \<in> set (columns df) then column_outcome quantile self df column else None))
   \<and> (\<forall>column e. detect_column quantile self df column = Inl e \<longrightarrow>
         detect_outliers quantile self df column = None)
   \<and> (rows df = [] \<longrightarrow> detect_outliers quantile self df = Map.empty)"
proof (intro conjI allI impI)
  fix column
  show "detect_outliers quantile self df column =
       (if column \<in> set (columns df) then column_outcome quantile self df column else None)"
    by (rule detect_outliers_eq)
next
  fix column e
  assume "detect_column quantile self df column = Inl e"
  then show "detect_outliers quantile self df column = None"
    by (simp add: detect_outliers_eq column_outcome_def)
next
  assume "rows df = []"
  then have "column_outcome quantile self df column = None" for column
    by (simp add: column_outcome_def detect_column_def get_column_def)
  then show "detect_outliers quantile self df = Map.empty"
    by (simp add: fun_eq_iff detect_outliers_eq)
qed

theorem detect_outliers_isolates_columns_witness:
  "detect_column pl_quantile default_detector policy_frame ''active'' = Inl InvalidOperationError
   \<and> detect_outliers pl_quantile default_detector policy_frame ''active'' = None
   \<and> detect_outliers pl_quantile default_detector policy_frame ''premium''
       = Some \<lparr>schema = [(''premium'', pl_Int64), (''method'', pl_String), (''direction'', pl_String)],
               rows = [[(''premium'', PyInt 1000), (''method'', PyStr ''IQR''),
                        (''direction'', PyStr ''above'')]]\<rparr>
   \<and> detect_outliers pl_quantile default_detector policy_frame ''region'' = None
   \<and> rows (column_frame ''premium'' pl_Int64 []) = []
   \<and> detect_outliers pl_quantile default_detector (column_frame ''premium'' pl_Int64 []) = Map.empty"
proof -
  note t = detect_outliers_isolates_columns [of pl_quantile default_detector]
  have th: "0 \<le> percentile_threshold default_detector" "percentile_threshold default_detector \<le> 100"
    by (simp_all add: default_detector_def)
  have pf: "get_column policy_frame ''active'' = Inr [PyBool True, PyBool False, PyBool True, PyBool True]"
    "get_column policy_frame ''premium'' = Inr [PyInt 5, PyInt 6, PyInt 7, PyInt 1000]"
    "get_column policy_frame ''region'' = Inr [PyStr ''north'', PyStr ''north'', PyStr ''south'', PyStr ''south'']"
    by (simp_all add: policy_frame_def frame_eval)
  have a: "detect_column pl_quantile default_detector policy_frame ''active'' = Inl InvalidOperationError"
    using detect_numeric_outliers_non_numeric [OF pf(1) th]
    by (simp add: scan_defs pf(1))
  have p: "column_outcome pl_quantile default_detector policy_frame ''premium''
       = Some \<lparr>schema = [(''premium'', pl_Int64), (''method'', pl_String), (''direction'', pl_String)],
               rows = [[(''premium'', PyInt 1000), (''method'', PyStr ''IQR''),
                        (''direction'', PyStr ''above'')]]\<rparr>"
  proof -
    let ?col = "[PyInt 5, PyInt 6, PyInt 7, PyInt 1000]"
    have n: "''premium'' \<noteq> ''method''" "''premium'' \<noteq> ''direction''" by simp_all
    have num: "\<forall>v \<in> set ?col. v = PyNone \<or> num_of v \<noteq> None" by simp
    have q1: "pl_quantile (1 / 4) ?col = Inr (Some 6)" by (simp add: quantile_eval)
    have q3: "pl_quantile (3 / 4) ?col = Inr (Some 7)" by (simp add: quantile_eval)
    note d = detect_numeric_outliers_pl [OF pf(2) n th num q3 q1]
    show ?thesis
      by (simp add: scan_defs pf(2) d) (simp add: float_eval policy_frame_def dtype_of_def)
  qed
  have r: "column_outcome pl_quantile default_detector policy_frame ''region'' = None"
  proof -
    let ?col = "[PyStr ''north'', PyStr ''north'', PyStr ''south'', PyStr ''south'']"
    have nm: "''region'' \<noteq> ''count''" "''region'' \<noteq> ''percentage''" by simp_all
    have n: "100 * length (rows policy_frame) < (2::nat) ^ 32" by (simp add: policy_frame_def)
    have q: "\<forall>v \<in> set ?col. \<not> rows_percentage policy_frame ?col v
        < rare_category_threshold default_detector"
      by (simp add: rows_percentage_def policy_frame_def default_detector_def as_double_quarters)
    show ?thesis
      by (simp add: scan_defs pf(3) no_rare_category [OF pf(3) nm n q])
  qed
  have e: "rows (column_frame ''premium'' pl_Int64 []) = []" by (simp add: column_frame_def)
  have 1: "detect_outliers pl_quantile default_detector policy_frame ''active'' = None"
    using t [of policy_frame] a by blast
  have 2: "detect_outliers pl_quantile default_detector policy_frame ''premium''
       = Some \<lparr>schema = [(''premium'', pl_Int64), (''method'', pl_String), (''direction'', pl_String)],
               rows = [[(''premium'', PyInt 1000), (''method'', PyStr ''IQR''),
                        (''direction'', PyStr ''above'')]]\<rparr>"
    using t [of policy_frame] p by (simp add: policy_frame_def columns_def)
  have 3: "detect_outliers pl_quantile default_detector policy_frame ''region'' = None"
    using t [of policy_frame] r by (simp add: policy_frame_def columns_def)
  have 4: "detect_outliers pl_quantile default_detector (column_frame ''premium'' pl_Int64 []) = Map.empty"
    using t [of "column_frame ''premium'' pl_Int64 []"] e by blast
  show ?thesis
    by (intro conjI) (fact a 1 2 3 e 4)+
qed

end
